theory Spec2Isabelle
  imports Complex_Main "HOL-Library.Log_Nat"
begin

section \<open>The environmental-impact service of promptpulse\<close>

text \<open>
  A shallow embedding of \<^verbatim>\<open>environmental-service/src\<close>: the model energy table
  (\<^verbatim>\<open>ecologits_calculator.py\<close>), the carbon-intensity resolver
  (\<^verbatim>\<open>carbon_intensity.py\<close>), the validator and formatter (\<^verbatim>\<open>utils.py\<close>) and the
  request handlers with their in-memory cache (\<^verbatim>\<open>app.py\<close>).

  Conventions of the embedding:
  \<^item> a Python \<^verbatim>\<open>float\<close> is a rational number (\<open>pyfloat\<close>). The energy calculation is
    modelled in binary64 arithmetic: every literal, product and sum is rounded to the nearest
    double, ties to even, and a too large \<^verbatim>\<open>int\<close> raises \<^verbatim>\<open>OverflowError\<close>. The arithmetic
    behind it (CO2, tree equivalent, everyday equivalents) is exact: what is proved of these
    quantities is proved of their roundings to six decimals or fewer. Infinities and NaN are
    not modelled;
  \<^item> a Python \<^verbatim>\<open>str\<close> is a \<open>string\<close> of code points below 256: \<^verbatim>\<open>lower()\<close> and \<^verbatim>\<open>strip()\<close>
    act on them as Python does;
  \<^item> a Python \<^verbatim>\<open>dict\<close> is an association list in insertion order with distinct keys;
  \<^item> what the code reads from outside (environment variables, the two HTTP providers, the
    clock, \<^verbatim>\<open>datetime.fromisoformat\<close>) is a parameter of the function that reads it.
\<close>

subsection \<open>Python dictionaries in insertion order\<close>

type_synonym ('k, 'v) pydict = "('k \<times> 'v) list"

text \<open>\<^verbatim>\<open>d[k] = v\<close>: an existing key keeps its place, a new key goes to the end.\<close>

fun dict_set :: "'k \<Rightarrow> 'v \<Rightarrow> ('k, 'v) pydict \<Rightarrow> ('k, 'v) pydict" where
  "dict_set k v [] = [(k, v)]"
| "dict_set k v ((k', v') # d) =
     (if k' = k then (k, v) # d else (k', v') # dict_set k v d)"

text \<open>\<^verbatim>\<open>del d[k]\<close>: \<open>None\<close> stands for the \<^verbatim>\<open>KeyError\<close> of a key that is not there.\<close>

fun dict_del :: "'k \<Rightarrow> ('k, 'v) pydict \<Rightarrow> ('k, 'v) pydict option" where
  "dict_del k [] = None"
| "dict_del k ((k', v') # d) =
     (if k' = k then Some d
      else (case dict_del k d of None \<Rightarrow> None | Some d' \<Rightarrow> Some ((k', v') # d')))"

text \<open>\<^verbatim>\<open>d.get(k)\<close>\<close>

definition dict_get :: "('k, 'v) pydict \<Rightarrow> 'k \<Rightarrow> 'v option" where
  "dict_get d k = map_of d k"

subsection \<open>The result cache (app.py)\<close>

text \<open>
  \<^verbatim>\<open>
  def get_cached_result(cache_key):
      try:
          return cache_dict.get(cache_key)
      except Exception as e: ...
  \<close>
\<close>

definition get_cached_result :: "('k, 'v) pydict \<Rightarrow> 'k \<Rightarrow> 'v option" where
  "get_cached_result cache_dict cache_key = dict_get cache_dict cache_key"

text \<open>
  The loop \<^verbatim>\<open>for key in keys_to_remove: del cache_dict[key]\<close>. A \<^verbatim>\<open>KeyError\<close> would be
  caught by the enclosing \<^verbatim>\<open>except\<close>, which leaves the dictionary as it is at that point.
\<close>

fun del_keys :: "'k list \<Rightarrow> ('k, 'v) pydict \<Rightarrow> ('k, 'v) pydict" where
  "del_keys [] d = d"
| "del_keys (k # ks) d =
     (case dict_del k d of None \<Rightarrow> d | Some d' \<Rightarrow> del_keys ks d')"

text \<open>
  \<^verbatim>\<open>
  def cache_result(cache_key, result, ttl=21600):
      try:
          cache_dict[cache_key] = result
          if len(cache_dict) > 1000:
              keys_to_remove = list(cache_dict.keys())[:200]
              for key in keys_to_remove:
                  del cache_dict[key]
      except Exception as e: ...
  \<close>
  The \<^verbatim>\<open>ttl\<close> is not used by the code.
\<close>

definition cache_result :: "'k \<Rightarrow> 'v \<Rightarrow> ('k, 'v) pydict \<Rightarrow> ('k, 'v) pydict" where
  "cache_result cache_key result cache_dict =
     (let d = dict_set cache_key result cache_dict
      in if length d > 1000 then del_keys (take 200 (map fst d)) d else d)"

text \<open>A sequence of cache writes, oldest first, applied to a cache.\<close>

definition cache_writes :: "('k \<times> 'v) list \<Rightarrow> ('k, 'v) pydict \<Rightarrow> ('k, 'v) pydict" where
  "cache_writes ws d = foldl (\<lambda>c (k, v). cache_result k v c) d ws"

text \<open>
  The number of entries evicted in the course of \<open>m\<close> writes of distinct keys to an empty
  cache: the writes number 1001, 1201, 1401, ... each remove 200 entries.
\<close>

definition evicted_count :: "nat \<Rightarrow> nat" where
  "evicted_count m = 200 * ((m - 801) div 200)"

subsection \<open>Python values and strings\<close>

type_synonym pyfloat = rat

text \<open>
  A value as JSON delivers it. \<open>POther t r\<close> is a float, a list or an object: the code below
  looks only at its truth value \<open>t\<close> and, in an f-string, at its text \<open>r\<close>.
\<close>

datatype pyval =
    PNone
  | PBool bool
  | PInt int
  | PStr string
  | POther bool string

text \<open>The truth value of a value in \<^verbatim>\<open>if v:\<close>.\<close>

fun truthy :: "pyval \<Rightarrow> bool" where
  "truthy PNone = False"
| "truthy (PBool b) = b"
| "truthy (PInt n) = (n \<noteq> 0)"
| "truthy (PStr s) = (s \<noteq> [])"
| "truthy (POther t r) = t"

text \<open>The truth value of the result of \<^verbatim>\<open>os.getenv\<close>: \<^verbatim>\<open>None\<close> and the empty string are false.\<close>

fun truthy_str :: "string option \<Rightarrow> bool" where
  "truthy_str None = False"
| "truthy_str (Some s) = (s \<noteq> [])"

text \<open>The truth value of an optional float: \<^verbatim>\<open>None\<close> and \<^verbatim>\<open>0.0\<close> are false.\<close>

fun truthy_float :: "pyfloat option \<Rightarrow> bool" where
  "truthy_float None = False"
| "truthy_float (Some x) = (x \<noteq> 0)"

text \<open>
  \<^verbatim>\<open>str.lower()\<close> on the code points below 256: the letters A to Z, and the capital letters
  of Latin-1, 192 to 222 without the multiplication sign 215, move up by 32.
\<close>

definition lower_char :: "char \<Rightarrow> char" where
  "lower_char c =
     (let n = (of_char c :: nat)
      in if (65 \<le> n \<and> n \<le> 90) \<or> (192 \<le> n \<and> n \<le> 222 \<and> n \<noteq> 215) then char_of (n + 32)
         else c)"

definition lower :: "string \<Rightarrow> string" where
  "lower s = map lower_char s"

text \<open>
  \<^verbatim>\<open>str.isspace\<close> on the code points below 256: tab, line feed, VT, FF, CR, the separators
  28 to 31, space, next line (133) and no-break space (160).
\<close>

definition is_space :: "char \<Rightarrow> bool" where
  "is_space c =
     (let n = (of_char c :: nat)
      in (9 \<le> n \<and> n \<le> 13) \<or> (28 \<le> n \<and> n \<le> 32) \<or> n = 133 \<or> n = 160)"

text \<open>\<^verbatim>\<open>str.strip()\<close>\<close>

definition strip :: "string \<Rightarrow> string" where
  "strip s = rev (dropWhile is_space (rev (dropWhile is_space s)))"

text \<open>\<^verbatim>\<open>s.startswith(p)\<close>\<close>

definition startswith :: "string \<Rightarrow> string \<Rightarrow> bool" where
  "startswith s p = (take (length p) s = p)"

text \<open>\<^verbatim>\<open>p in s\<close> for strings: \<open>p\<close> occurs in \<open>s\<close> as a contiguous substring.\<close>

fun str_in :: "string \<Rightarrow> string \<Rightarrow> bool" where
  "str_in p [] = (p = [])"
| "str_in p (c # s) = (startswith (c # s) p \<or> str_in p s)"

subsection \<open>The carbon-intensity resolver (carbon\_intensity.py)\<close>

text \<open>
  The fields of \<^verbatim>\<open>CarbonIntensityService\<close> that \<^verbatim>\<open>__init__\<close> reads from the environment,
  and the WattTime token, which the service keeps once it has logged in.
\<close>

record carbon_service =
  electricity_maps_token :: "string option"
  watt_time_username :: "string option"
  watt_time_password :: "string option"
  watt_time_token :: "string option"

text \<open>
  The two HTTP providers, as the code sees them. \<open>em_latest token zone\<close> is the
  \<^verbatim>\<open>carbonIntensity\<close> of a 200 answer of ElectricityMaps, \<open>wt_login user password\<close> the token of
  a 200 answer of the WattTime login, \<open>wt_index token region\<close> the \<^verbatim>\<open>moer\<close> of a 200 answer
  of WattTime. \<open>None\<close> is every other outcome (another status, a timeout, an answer that
  does not parse): the code catches all of them and returns \<^verbatim>\<open>None\<close>.
\<close>

record providers =
  em_latest :: "string \<Rightarrow> string \<Rightarrow> pyfloat option"
  wt_login :: "string \<Rightarrow> string \<Rightarrow> string option"
  wt_index :: "string \<Rightarrow> string \<Rightarrow> pyfloat option"

text \<open>\<^verbatim>\<open>self.regional_fallbacks\<close>, in gCO2/kWh.\<close>

definition regional_fallbacks :: "(string, pyfloat) pydict" where
  "regional_fallbacks =
     [(''us-west-1'', 350), (''us-west-2'', 380), (''us-east-1'', 420), (''us-east-2'', 450),
      (''eu-west-1'', 300), (''eu-central-1'', 400), (''ap-southeast-1'', 500),
      (''ap-northeast-1'', 350), (''default'', 400)]"

definition aws_regions :: "(string, string) pydict" where
  "aws_regions =
     [(''us-west-1'', ''us-west-1''), (''us-west-2'', ''us-west-2''),
      (''us-east-1'', ''us-east-1''), (''us-east-2'', ''us-east-2''),
      (''eu-west-1'', ''eu-west-1''), (''eu-central-1'', ''eu-central-1''),
      (''ap-southeast-1'', ''ap-southeast-1''), (''ap-northeast-1'', ''ap-northeast-1'')]"

definition location_mapping :: "(string, string) pydict" where
  "location_mapping =
     [(''california'', ''us-west-1''), (''oregon'', ''us-west-2''),
      (''washington'', ''us-west-2''), (''virginia'', ''us-east-1''), (''ohio'', ''us-east-2''),
      (''ireland'', ''eu-west-1''), (''germany'', ''eu-central-1''),
      (''singapore'', ''ap-southeast-1''), (''japan'', ''ap-northeast-1''),
      (''de'', ''eu-central-1''), (''ie'', ''eu-west-1''), (''sg'', ''ap-southeast-1''),
      (''jp'', ''ap-northeast-1'')]"

text \<open>
  \<^verbatim>\<open>
  def _normalize_location(self, location):
      location = location.lower().strip()
      if location in aws_regions:
          return aws_regions[location]
      return location_mapping.get(location, location)
  \<close>
\<close>

definition normalize_location :: "string \<Rightarrow> string" where
  "normalize_location location =
     (let location = strip (lower location)
      in case dict_get aws_regions location of
           Some region \<Rightarrow> region
         | None \<Rightarrow>
             (case dict_get location_mapping location of
                Some region \<Rightarrow> region
              | None \<Rightarrow> location))"

text \<open>
  \<^verbatim>\<open>
  def _get_fallback_intensity(self, location):
      return self.regional_fallbacks.get(location, self.regional_fallbacks['default'])
  \<close>
  The key \<^verbatim>\<open>'default'\<close> is in the table, so the subscript does not raise; \<open>400\<close> below is
  only the value of \<open>case\<close> on the branch that cannot be taken.
\<close>

definition get_fallback_intensity :: "string \<Rightarrow> pyfloat" where
  "get_fallback_intensity location =
     (let dflt = (case dict_get regional_fallbacks ''default'' of Some v \<Rightarrow> v | None \<Rightarrow> 400)
      in case dict_get regional_fallbacks location of Some v \<Rightarrow> v | None \<Rightarrow> dflt)"

definition em_zone_mapping :: "(string, string) pydict" where
  "em_zone_mapping =
     [(''us-west-1'', ''US-CAL-CISO''), (''us-west-2'', ''US-NW-PACW''),
      (''us-east-1'', ''US-VA''), (''us-east-2'', ''US-MIDW-MISO''), (''eu-west-1'', ''IE''),
      (''eu-central-1'', ''DE''), (''ap-southeast-1'', ''SG''), (''ap-northeast-1'', ''JP'')]"

text \<open>
  \<^verbatim>\<open>_get_electricity_maps_intensity\<close>: a location without a zone is a miss; the request is
  made with the configured token (the caller has checked that there is one).
\<close>

definition get_electricity_maps_intensity ::
    "providers \<Rightarrow> carbon_service \<Rightarrow> string \<Rightarrow> pyfloat option" where
  "get_electricity_maps_intensity net svc location =
     (case dict_get em_zone_mapping location of
        None \<Rightarrow> None
      | Some zone \<Rightarrow>
          (case electricity_maps_token svc of
             None \<Rightarrow> None
           | Some token \<Rightarrow> em_latest net token zone))"

text \<open>\<^verbatim>\<open>_authenticate_watt_time\<close>\<close>

definition authenticate_watt_time :: "providers \<Rightarrow> carbon_service \<Rightarrow> string option" where
  "authenticate_watt_time net svc =
     (if \<not> (truthy_str (watt_time_username svc) \<and> truthy_str (watt_time_password svc))
      then None
      else (case (watt_time_username svc, watt_time_password svc) of
              (Some u, Some p) \<Rightarrow> wt_login net u p
            | _ \<Rightarrow> None))"

definition wt_region_mapping :: "(string, string) pydict" where
  "wt_region_mapping =
     [(''us-west-1'', ''CAISO_NORTH''), (''us-west-2'', ''PACW''),
      (''us-east-1'', ''PJM_DC''), (''us-east-2'', ''MISO_IN'')]"

text \<open>
  \<^verbatim>\<open>_get_watt_time_intensity\<close>: logs in when the service holds no token, keeps the token, and
  converts the answer from lbs/MWh to g/kWh. Returns the value and the service.
\<close>

definition get_watt_time_intensity ::
    "providers \<Rightarrow> carbon_service \<Rightarrow> string \<Rightarrow> pyfloat option \<times> carbon_service" where
  "get_watt_time_intensity net svc location =
     (let svc = (if \<not> truthy_str (watt_time_token svc)
                 then svc\<lparr>watt_time_token := authenticate_watt_time net svc\<rparr> else svc)
      in if \<not> truthy_str (watt_time_token svc) then (None, svc)
         else (case dict_get wt_region_mapping location of
                 None \<Rightarrow> (None, svc)
               | Some region \<Rightarrow>
                   (case watt_time_token svc of
                      None \<Rightarrow> (None, svc)
                    | Some token \<Rightarrow>
                        (case wt_index net token region of
                           None \<Rightarrow> (None, svc)
                         | Some moer_lbs_mwh \<Rightarrow>
                             (Some (moer_lbs_mwh * 453.592 / 1000), svc)))))"

text \<open>
  \<^verbatim>\<open>
  def get_carbon_intensity(self, location, timestamp=None):
      try:
          normalized_location = self._normalize_location(location)
          if self.electricity_maps_token:
              intensity = self._get_electricity_maps_intensity(normalized_location, timestamp)
              if intensity:
                  return intensity
          if normalized_location.startswith('us-') and self.watt_time_username:
              intensity = self._get_watt_time_intensity(normalized_location, timestamp)
              if intensity:
                  return intensity
          fallback = self._get_fallback_intensity(normalized_location)
          return fallback
      except Exception as e:
          return self.regional_fallbacks.get('default', 400)
  \<close>
  The location is whatever the request carried. On a value that is not a string,
  \<^verbatim>\<open>location.lower()\<close> raises, and the handler returns the default of the table. The
  timestamp is passed on and never read.
\<close>

definition get_carbon_intensity ::
    "providers \<Rightarrow> carbon_service \<Rightarrow> pyval \<Rightarrow> pyfloat \<times> carbon_service" where
  "get_carbon_intensity net svc location =
     (case location of
        PStr loc \<Rightarrow>
          (let normalized_location = normalize_location loc;
               em = (if truthy_str (electricity_maps_token svc)
                     then get_electricity_maps_intensity net svc normalized_location
                     else None)
           in if truthy_float em then (the em, svc)
              else if startswith normalized_location ''us-'' \<and> truthy_str (watt_time_username svc)
              then (let (wt, svc') = get_watt_time_intensity net svc normalized_location
                    in if truthy_float wt then (the wt, svc')
                       else (get_fallback_intensity normalized_location, svc'))
              else (get_fallback_intensity normalized_location, svc))
      | _ \<Rightarrow>
          ((case dict_get regional_fallbacks ''default'' of Some v \<Rightarrow> v | None \<Rightarrow> 400), svc))"

subsection \<open>Binary64 arithmetic\<close>

text \<open>\<^verbatim>\<open>round(x)\<close>: the nearest integer, a tie going to the even neighbour.\<close>

definition round_half_even :: "pyfloat \<Rightarrow> int" where
  "round_half_even x =
     (let f = \<lfloor>x\<rfloor>; r = x - of_int f
      in if r < 1 / 2 then f else if 1 / 2 < r then f + 1 else if even f then f else f + 1)"

text \<open>
  The exponent of a number that is not zero: the \<open>e\<close> with \<open>2^e \<le> \<bar>x\<bar> < 2^(e + 1)\<close>. For
  \<open>\<bar>x\<bar> = a / b\<close> in lowest terms, the difference \<open>n\<close> of the bit lengths of \<open>a\<close> and \<open>b\<close> is
  \<open>e\<close> or \<open>e + 1\<close>.
\<close>

definition binary_exponent :: "rat \<Rightarrow> int" where
  "binary_exponent x =
     (let (a, b) = quotient_of \<bar>x\<bar>; n = bitlen a - bitlen b
      in if 2 powi n \<le> \<bar>x\<bar> then n else n - 1)"

text \<open>
  The double nearest to \<open>x\<close>, a tie going to the even significand: a significand of 53 bits,
  and the fixed spacing \<open>2^-1074\<close> of the subnormal numbers below \<open>2^-1022\<close>. A Python \<^verbatim>\<open>float\<close>
  literal stands for the double nearest to its decimal value, and every arithmetic operation
  returns the double nearest to the exact result. The overflow to infinity beyond the
  largest double is not modelled: the energy calculation stays below it whenever the
  conversion of the token counts succeeds.
\<close>

definition binary64 :: "rat \<Rightarrow> pyfloat" where
  "binary64 x =
     (if x = 0 then 0
      else (let e = max (binary_exponent x) (- 1022); ulp = 2 powi (e - 52)
            in of_int (round_half_even (x / ulp)) * ulp))"

text \<open>
  The accuracy of a computed value: \<open>y\<close> is the non-negative number \<open>x\<close> up to \<open>k\<close> roundings,
  each of which changes a value by at most the fraction \<open>2^-53\<close> of it.
\<close>

definition unit_roundoff :: rat where
  "unit_roundoff = 1 / 2 ^ 53"

text \<open>The smallest normal double; rounding is accurate to \<open>2^-53\<close> from here upwards.\<close>

definition min_normal :: rat where
  "min_normal = 2 powi (- 1022)"

definition accurate :: "nat \<Rightarrow> rat \<Rightarrow> rat \<Rightarrow> bool" where
  "accurate k y x =
     (0 \<le> x \<and> x * (1 - unit_roundoff) ^ k \<le> y \<and> y \<le> x * (1 + unit_roundoff) ^ k)"

subsection \<open>Exceptions and the conversion of integers to floats\<close>

text \<open>The exceptions that the modelled code can raise, each with the text of \<^verbatim>\<open>str(e)\<close>.\<close>

datatype py_error = OverflowError string | TypeError string

fun str_error :: "py_error \<Rightarrow> string" where
  "str_error (OverflowError msg) = msg"
| "str_error (TypeError msg) = msg"

text \<open>
  In \<^verbatim>\<open>n * x\<close> with an \<^verbatim>\<open>int\<close> \<open>n\<close> and a \<^verbatim>\<open>float\<close> \<open>x\<close>, Python converts \<open>n\<close> to the
  nearest double first. The conversion raises \<^verbatim>\<open>OverflowError\<close> when \<open>n\<close> rounds to a
  magnitude beyond the largest double, that is from \<open>2^1024 - 2^970\<close> on.
\<close>

definition float_int_bound :: int where
  "float_int_bound = 2 ^ 1024 - 2 ^ 970"

definition float_of_int :: "int \<Rightarrow> py_error + pyfloat" where
  "float_of_int n =
     (if \<bar>n\<bar> < float_int_bound then Inr (binary64 (of_int n))
      else Inl (OverflowError ''int too large to convert to float''))"

text \<open>
  \<^verbatim>\<open>n * x\<close> for an \<^verbatim>\<open>int\<close> \<open>n\<close> and a \<^verbatim>\<open>float\<close> \<open>x\<close> that the source writes as a decimal
  literal: the product of the two doubles, rounded.
\<close>

definition int_times_float :: "int \<Rightarrow> pyfloat \<Rightarrow> py_error + pyfloat" where
  "int_times_float n x =
     (case float_of_int n of Inl e \<Rightarrow> Inl e | Inr y \<Rightarrow> Inr (binary64 (y * binary64 x)))"

subsection \<open>The model energy table (ecologits\_calculator.py)\<close>

record ModelEnergyProfile =
  name :: string
  energy_per_input_token :: pyfloat
  energy_per_output_token :: pyfloat
  base_energy :: pyfloat
  source :: string

definition claude_3_5_sonnet_base :: ModelEnergyProfile where
  "claude_3_5_sonnet_base =
     \<lparr>name = ''claude-3-5-sonnet'', energy_per_input_token = 0.0001,
      energy_per_output_token = 0.0003, base_energy = 0.01, source = ''ecologits_estimate''\<rparr>"

definition claude_models :: "string list" where
  "claude_models =
     [''claude-3-5-sonnet-20241022'', ''claude-3-5-sonnet-20240620'', ''claude-3-5-sonnet'',
      ''claude-3-sonnet-20240229'', ''claude-3-haiku-20240307'', ''claude-3-opus-20240229'']"

text \<open>
  \<^verbatim>\<open>_initialize_model_profiles\<close>: the loop over \<^verbatim>\<open>claude_models\<close> stores one profile per name.
  The haiku and opus names get a profile of their own; every other name shares the sonnet
  profile, whose \<^verbatim>\<open>name\<close> field is \<^verbatim>\<open>claude-3-5-sonnet\<close>.
\<close>

definition initialize_model_profiles :: "(string, ModelEnergyProfile) pydict" where
  "initialize_model_profiles =
     foldl (\<lambda>profiles model_name.
        if str_in ''haiku'' (lower model_name)
        then dict_set model_name
               \<lparr>name = model_name, energy_per_input_token = 0.00005,
                energy_per_output_token = 0.00015, base_energy = 0.005,
                source = ''ecologits_estimate''\<rparr> profiles
        else if str_in ''opus'' (lower model_name)
        then dict_set model_name
               \<lparr>name = model_name, energy_per_input_token = 0.0002,
                energy_per_output_token = 0.0005, base_energy = 0.02,
                source = ''ecologits_estimate''\<rparr> profiles
        else dict_set model_name claude_3_5_sonnet_base profiles)
       [] claude_models"

text \<open>\<^verbatim>\<open>self.model_profiles\<close>, set by \<^verbatim>\<open>__init__\<close> and never changed afterwards.\<close>

definition model_profiles :: "(string, ModelEnergyProfile) pydict" where
  "model_profiles = initialize_model_profiles"

definition get_haiku_profile :: ModelEnergyProfile where
  "get_haiku_profile =
     \<lparr>name = ''claude-haiku-fallback'', energy_per_input_token = 0.00005,
      energy_per_output_token = 0.00015, base_energy = 0.005, source = ''fallback_estimate''\<rparr>"

definition get_opus_profile :: ModelEnergyProfile where
  "get_opus_profile =
     \<lparr>name = ''claude-opus-fallback'', energy_per_input_token = 0.0002,
      energy_per_output_token = 0.0005, base_energy = 0.02, source = ''fallback_estimate''\<rparr>"

definition get_sonnet_profile :: ModelEnergyProfile where
  "get_sonnet_profile =
     \<lparr>name = ''claude-sonnet-fallback'', energy_per_input_token = 0.0001,
      energy_per_output_token = 0.0003, base_energy = 0.01, source = ''fallback_estimate''\<rparr>"

definition get_default_profile :: ModelEnergyProfile where
  "get_default_profile =
     \<lparr>name = ''unknown-model-fallback'', energy_per_input_token = 0.0001,
      energy_per_output_token = 0.0003, base_energy = 0.01, source = ''default_fallback''\<rparr>"

text \<open>
  The loop of \<^verbatim>\<open>_get_model_profile\<close> over \<^verbatim>\<open>self.model_profiles.items()\<close>:
  \<^verbatim>\<open>
  for profile_name, profile in self.model_profiles.items():
      if profile_name.lower() in model_lower or model_lower in profile_name.lower():
          return profile
  \<close>
  \<open>None\<close> when the loop ends without returning.
\<close>

fun fuzzy_match ::
    "string \<Rightarrow> (string, ModelEnergyProfile) pydict \<Rightarrow> ModelEnergyProfile option" where
  "fuzzy_match model_lower [] = None"
| "fuzzy_match model_lower ((profile_name, profile) # rest) =
     (if str_in (lower profile_name) model_lower \<or> str_in model_lower (lower profile_name)
      then Some profile
      else fuzzy_match model_lower rest)"

text \<open>
  \<^verbatim>\<open>
  def _get_model_profile(self, model):
      if model in self.model_profiles:
          return self.model_profiles[model]
      model_lower = model.lower()
      for ...            # the loop above
      if "haiku" in model_lower:
          return self._get_haiku_profile()
      elif "opus" in model_lower:
          return self._get_opus_profile()
      elif "sonnet" in model_lower or "claude" in model_lower:
          return self._get_sonnet_profile()
      return self._get_default_profile()
  \<close>
\<close>

definition get_model_profile :: "string \<Rightarrow> ModelEnergyProfile" where
  "get_model_profile model =
     (case dict_get model_profiles model of
        Some profile \<Rightarrow> profile
      | None \<Rightarrow>
          (let model_lower = lower model
           in case fuzzy_match model_lower model_profiles of
                Some profile \<Rightarrow> profile
              | None \<Rightarrow>
                  if str_in ''haiku'' model_lower then get_haiku_profile
                  else if str_in ''opus'' model_lower then get_opus_profile
                  else if str_in ''sonnet'' model_lower \<or> str_in ''claude'' model_lower
                  then get_sonnet_profile
                  else get_default_profile))"

text \<open>
  \<^verbatim>\<open>
  def _fallback_energy_calculation(self, input_tokens, output_tokens):
      total_tokens = input_tokens + output_tokens
      energy_wh = total_tokens * 0.0001
      return energy_wh
  \<close>
\<close>

definition fallback_energy_calculation :: "int \<Rightarrow> int \<Rightarrow> py_error + pyfloat" where
  "fallback_energy_calculation input_tokens output_tokens =
     int_times_float (input_tokens + output_tokens) 0.0001"

text \<open>
  \<^verbatim>\<open>
  def calculate_energy_consumption(self, model, input_tokens, output_tokens):
      try:
          profile = self._get_model_profile(model)
          input_energy = input_tokens * profile.energy_per_input_token
          output_energy = output_tokens * profile.energy_per_output_token
          base_energy = profile.base_energy
          total_energy = input_energy + output_energy + base_energy
          return total_energy
      except Exception as e:
          return self._fallback_energy_calculation(input_tokens, output_tokens)
  \<close>
  An exception of the \<^verbatim>\<open>try\<close> block leads to the fallback calculation; an exception of the
  fallback calculation leaves the function (\<open>Inl\<close>). The two sums are rounded like the
  products; \<^verbatim>\<open>profile.base_energy\<close> is the double of its literal.
\<close>

definition calculate_energy_consumption :: "string \<Rightarrow> int \<Rightarrow> int \<Rightarrow> py_error + pyfloat" where
  "calculate_energy_consumption model input_tokens output_tokens =
     (let profile = get_model_profile model
      in case int_times_float input_tokens (energy_per_input_token profile) of
           Inl e \<Rightarrow> fallback_energy_calculation input_tokens output_tokens
         | Inr input_energy \<Rightarrow>
             (case int_times_float output_tokens (energy_per_output_token profile) of
                Inl e \<Rightarrow> fallback_energy_calculation input_tokens output_tokens
              | Inr output_energy \<Rightarrow>
                  Inr (binary64 (binary64 (input_energy + output_energy) +
                                 binary64 (base_energy profile)))))"

subsection \<open>The energy formula in the words of the specification\<close>

text \<open>
  \<open>input_tokens * a + output_tokens * b + base\<close> for the constants of a profile as the source
  writes them, in exact arithmetic.
\<close>

definition energy_formula :: "ModelEnergyProfile \<Rightarrow> int \<Rightarrow> int \<Rightarrow> rat" where
  "energy_formula profile input_tokens output_tokens =
     of_int input_tokens * energy_per_input_token profile +
     of_int output_tokens * energy_per_output_token profile + base_energy profile"

subsection \<open>The resolution order in the words of the specification\<close>

text \<open>
  A case-insensitive substring match, in either direction, between the queried model id and
  a known profile name.
\<close>

definition fuzzy_matches :: "string \<Rightarrow> string \<Rightarrow> bool" where
  "fuzzy_matches model profile_name =
     (str_in (lower profile_name) (lower model) \<or> str_in (lower model) (lower profile_name))"

text \<open>The three constants of a profile: per input token, per output token, per request.\<close>

definition profile_constants :: "ModelEnergyProfile \<Rightarrow> pyfloat \<times> pyfloat \<times> pyfloat" where
  "profile_constants p = (energy_per_input_token p, energy_per_output_token p, base_energy p)"

text \<open>
  First match wins: (1) the exact entry of the table; (2) the first entry of the table, in its
  order, whose name matches fuzzily; (3) the family named in the lower-cased id; (4) the
  default.
\<close>

definition resolve_profile :: "string \<Rightarrow> ModelEnergyProfile" where
  "resolve_profile model =
     (case map_of model_profiles model of
        Some p \<Rightarrow> p
      | None \<Rightarrow>
          (case find (\<lambda>(n, p). fuzzy_matches model n) model_profiles of
             Some (n, p) \<Rightarrow> p
           | None \<Rightarrow>
               if str_in ''haiku'' (lower model) then get_haiku_profile
               else if str_in ''opus'' (lower model) then get_opus_profile
               else if str_in ''sonnet'' (lower model) \<or> str_in ''claude'' (lower model)
               then get_sonnet_profile
               else get_default_profile))"

subsection \<open>The request validator (utils.py)\<close>

text \<open>\<^verbatim>\<open>isinstance(v, str)\<close> and \<^verbatim>\<open>isinstance(v, int)\<close>; a Python \<^verbatim>\<open>bool\<close> is an \<^verbatim>\<open>int\<close>.\<close>

fun is_str :: "pyval \<Rightarrow> bool" where
  "is_str (PStr s) = True"
| "is_str v = False"

fun is_int :: "pyval \<Rightarrow> bool" where
  "is_int (PInt n) = True"
| "is_int (PBool b) = True"
| "is_int v = False"

text \<open>The number that an \<^verbatim>\<open>int\<close> stands for in a comparison or a product.\<close>

fun int_value :: "pyval \<Rightarrow> int" where
  "int_value (PInt n) = n"
| "int_value (PBool b) = (if b then 1 else 0)"
| "int_value v = 0"

fun str_value :: "pyval \<Rightarrow> string" where
  "str_value (PStr s) = s"
| "str_value v = []"

text \<open>
  \<^verbatim>\<open>d[k]\<close> behind a test \<^verbatim>\<open>k in d\<close>; the key is there wherever the code below subscripts.
\<close>

definition dict_item :: "(string, pyval) pydict \<Rightarrow> string \<Rightarrow> pyval" where
  "dict_item d k = (case dict_get d k of Some v \<Rightarrow> v | None \<Rightarrow> PNone)"

text \<open>\<^verbatim>\<open>timestamp.replace('Z', '+00:00')\<close>: every \<^verbatim>\<open>Z\<close> is replaced.\<close>

definition replace_Z :: "string \<Rightarrow> string" where
  "replace_Z s = concat (map (\<lambda>c. if c = CHR ''Z'' then ''+00:00'' else [c]) s)"

definition required_fields :: "string list" where
  "required_fields = [''model'', ''input_tokens'', ''output_tokens'']"

text \<open>
  \<^verbatim>\<open>
  for field in required_fields:
      if field not in data:
          return f"Missing required field: {field}"
  \<close>
\<close>

fun check_required :: "string list \<Rightarrow> (string, pyval) pydict \<Rightarrow> string option" where
  "check_required [] data = None"
| "check_required (field # others) data =
     (if dict_get data field = None then Some (''Missing required field: '' @ field)
      else check_required others data)"

text \<open>
  \<^verbatim>\<open>validate_request_data\<close>. The parameter \<open>fromisoformat\<close> tells whether
  \<^verbatim>\<open>datetime.fromisoformat\<close> accepts a string (it raises \<^verbatim>\<open>ValueError\<close> otherwise).
  \<^verbatim>\<open>
      model = data['model']
      if not isinstance(model, str) or len(model.strip()) == 0:
          return "Model must be a non-empty string"
      input_tokens = data['input_tokens']
      output_tokens = data['output_tokens']
      if not isinstance(input_tokens, int) or input_tokens < 0:
          return "input_tokens must be a non-negative integer"
      if not isinstance(output_tokens, int) or output_tokens < 0:
          return "output_tokens must be a non-negative integer"
      if input_tokens > 1_000_000:
          return "input_tokens exceeds reasonable limit (1M)"
      if output_tokens > 1_000_000:
          return "output_tokens exceeds reasonable limit (1M)"
      if 'timestamp' in data:
          timestamp = data['timestamp']
          if timestamp and not isinstance(timestamp, str):
              return "timestamp must be a string in ISO format"
          if timestamp:
              try:
                  datetime.fromisoformat(timestamp.replace('Z', '+00:00'))
              except ValueError:
                  return "timestamp must be a valid ISO format string"
      if 'location' in data:
          location = data['location']
          if location and (not isinstance(location, str) or len(location.strip()) == 0):
              return "location must be a non-empty string"
      return None
  \<close>
\<close>

definition validate_location_field :: "(string, pyval) pydict \<Rightarrow> string option" where
  "validate_location_field data =
     (case dict_get data ''location'' of
        None \<Rightarrow> None
      | Some location \<Rightarrow>
          if truthy location \<and> (\<not> is_str location \<or> length (strip (str_value location)) = 0)
          then Some ''location must be a non-empty string''
          else None)"

definition validate_timestamp_field ::
    "(string \<Rightarrow> bool) \<Rightarrow> (string, pyval) pydict \<Rightarrow> string option" where
  "validate_timestamp_field fromisoformat data =
     (case dict_get data ''timestamp'' of
        None \<Rightarrow> validate_location_field data
      | Some timestamp \<Rightarrow>
          if truthy timestamp \<and> \<not> is_str timestamp
          then Some ''timestamp must be a string in ISO format''
          else if truthy timestamp \<and> \<not> fromisoformat (replace_Z (str_value timestamp))
          then Some ''timestamp must be a valid ISO format string''
          else validate_location_field data)"

definition validate_request_data ::
    "(string \<Rightarrow> bool) \<Rightarrow> (string, pyval) pydict \<Rightarrow> string option" where
  "validate_request_data fromisoformat data =
     (case check_required required_fields data of
        Some msg \<Rightarrow> Some msg
      | None \<Rightarrow>
          (let model = dict_item data ''model'' in
           if \<not> is_str model \<or> length (strip (str_value model)) = 0
           then Some ''Model must be a non-empty string''
           else
             (let input_tokens = dict_item data ''input_tokens'';
                  output_tokens = dict_item data ''output_tokens'' in
              if \<not> is_int input_tokens \<or> int_value input_tokens < 0
              then Some ''input_tokens must be a non-negative integer''
              else if \<not> is_int output_tokens \<or> int_value output_tokens < 0
              then Some ''output_tokens must be a non-negative integer''
              else if int_value input_tokens > 1000000
              then Some ''input_tokens exceeds reasonable limit (1M)''
              else if int_value output_tokens > 1000000
              then Some ''output_tokens exceeds reasonable limit (1M)''
              else validate_timestamp_field fromisoformat data)))"

subsection \<open>The rules of the validator in the words of the specification\<close>

text \<open>
  A rule is a test that tells whether a record violates it, and the message of the
  rejection. The rules are listed in the order in which they apply.
\<close>

definition field_missing :: "string \<Rightarrow> (string, pyval) pydict \<Rightarrow> bool" where
  "field_missing k data = (dict_get data k = None)"

text \<open>The value under a key is not a string, or is a string that is blank.\<close>

definition not_nonblank_str :: "pyval \<Rightarrow> bool" where
  "not_nonblank_str v = (case v of PStr s \<Rightarrow> strip s = [] | _ \<Rightarrow> True)"

text \<open>The value is not a non-negative \<^verbatim>\<open>int\<close> (the booleans are \<^verbatim>\<open>int\<close>s, 1 and 0).\<close>

definition not_nonneg_int :: "pyval \<Rightarrow> bool" where
  "not_nonneg_int v = (case v of PInt n \<Rightarrow> n < 0 | PBool b \<Rightarrow> False | _ \<Rightarrow> True)"

definition over_limit :: "pyval \<Rightarrow> bool" where
  "over_limit v = (case v of PInt n \<Rightarrow> n > 1000000 | _ \<Rightarrow> False)"

text \<open>The optional field is present, not falsy, and the test \<open>bad\<close> holds of it.\<close>

definition present_truthy :: "string \<Rightarrow> (pyval \<Rightarrow> bool) \<Rightarrow> (string, pyval) pydict \<Rightarrow> bool" where
  "present_truthy k bad data =
     (case dict_get data k of None \<Rightarrow> False | Some v \<Rightarrow> truthy v \<and> bad v)"

definition validation_rules ::
    "(string \<Rightarrow> bool) \<Rightarrow> (((string, pyval) pydict \<Rightarrow> bool) \<times> string) list" where
  "validation_rules fromisoformat =
     [(field_missing ''model'', ''Missing required field: model''),
      (field_missing ''input_tokens'', ''Missing required field: input_tokens''),
      (field_missing ''output_tokens'', ''Missing required field: output_tokens''),
      (\<lambda>data. not_nonblank_str (dict_item data ''model''), ''Model must be a non-empty string''),
      (\<lambda>data. not_nonneg_int (dict_item data ''input_tokens''),
         ''input_tokens must be a non-negative integer''),
      (\<lambda>data. not_nonneg_int (dict_item data ''output_tokens''),
         ''output_tokens must be a non-negative integer''),
      (\<lambda>data. over_limit (dict_item data ''input_tokens''),
         ''input_tokens exceeds reasonable limit (1M)''),
      (\<lambda>data. over_limit (dict_item data ''output_tokens''),
         ''output_tokens exceeds reasonable limit (1M)''),
      (present_truthy ''timestamp'' (\<lambda>v. \<not> is_str v),
         ''timestamp must be a string in ISO format''),
      (present_truthy ''timestamp'' (\<lambda>v. \<not> fromisoformat (replace_Z (str_value v))),
         ''timestamp must be a valid ISO format string''),
      (present_truthy ''location'' not_nonblank_str, ''location must be a non-empty string'')]"

text \<open>The message of the first rule, in the order of the list, that the record violates.\<close>

definition first_violation ::
    "(((string, pyval) pydict \<Rightarrow> bool) \<times> string) list \<Rightarrow> (string, pyval) pydict \<Rightarrow> string option" where
  "first_violation rules data = map_option snd (find (\<lambda>(violated, msg). violated data) rules)"

subsection \<open>Rounding and the text of numbers\<close>

text \<open>\<^verbatim>\<open>round(x, ndigits)\<close> for a float \<open>x\<close> and \<open>ndigits \<ge> 0\<close>.\<close>

definition py_round :: "pyfloat \<Rightarrow> nat \<Rightarrow> pyfloat" where
  "py_round x ndigits = of_int (round_half_even (x * 10 ^ ndigits)) / 10 ^ ndigits"

definition digit_char :: "nat \<Rightarrow> char" where
  "digit_char d = char_of (48 + d)"

text \<open>\<^verbatim>\<open>str(n)\<close> for an \<^verbatim>\<open>int\<close>.\<close>

fun str_nat :: "nat \<Rightarrow> string" where
  "str_nat n = (if n < 10 then [digit_char n] else str_nat (n div 10) @ [digit_char (n mod 10)])"

declare str_nat.simps [simp del]

definition str_int :: "int \<Rightarrow> string" where
  "str_int i = (if i < 0 then ''-'' @ str_nat (nat (- i)) else str_nat (nat i))"

text \<open>
  The format \<^verbatim>\<open>f"{x:.1f}"\<close>: the value rounded to one decimal, with the digit after the
  point always written.
\<close>

definition format_1f :: "pyfloat \<Rightarrow> string" where
  "format_1f x =
     (let n = round_half_even (x * 10); m = nat \<bar>n\<bar>
      in (if n < 0 then ''-'' else []) @ str_nat (m div 10) @ ''.'' @ str_nat (m mod 10))"

text \<open>\<^verbatim>\<open>str(v)\<close>, as an f-string writes a value.\<close>

fun py_str :: "pyval \<Rightarrow> string" where
  "py_str PNone = ''None''"
| "py_str (PBool b) = (if b then ''True'' else ''False'')"
| "py_str (PInt n) = str_int n"
| "py_str (PStr s) = s"
| "py_str (POther t r) = r"

subsection \<open>The impact formatter (utils.py)\<close>

text \<open>
  \<^verbatim>\<open>
  def generate_tree_equivalent_text(tree_equivalent):
      if tree_equivalent <= 0:
          return "negligible environmental impact"
      elif tree_equivalent < 0.01:
          return "less than 1% of what a tree absorbs daily"
      elif tree_equivalent < 0.1:
          percent = round(tree_equivalent * 100)
          return f"{percent}% of what a tree absorbs daily"
      elif tree_equivalent < 1:
          return f"same CO2 as {tree_equivalent:.1f} of a tree absorbs daily"
      elif tree_equivalent < 2:
          return f"same CO2 as {tree_equivalent:.1f} tree absorbs daily"
      else:
          return f"same CO2 as {tree_equivalent:.1f} trees absorb daily"
  \<close>
\<close>

definition generate_tree_equivalent_text :: "pyfloat \<Rightarrow> string" where
  "generate_tree_equivalent_text tree_equivalent =
     (if tree_equivalent \<le> 0 then ''negligible environmental impact''
      else if tree_equivalent < 0.01 then ''less than 1% of what a tree absorbs daily''
      else if tree_equivalent < 0.1
      then (let percent = round_half_even (tree_equivalent * 100)
            in str_int percent @ ''% of what a tree absorbs daily'')
      else if tree_equivalent < 1
      then ''same CO2 as '' @ format_1f tree_equivalent @ '' of a tree absorbs daily''
      else if tree_equivalent < 2
      then ''same CO2 as '' @ format_1f tree_equivalent @ '' tree absorbs daily''
      else ''same CO2 as '' @ format_1f tree_equivalent @ '' trees absorb daily'')"

record AdditionalEquivalents =
  phone_charges :: pyfloat
  miles_driven :: pyfloat
  led_hours :: pyfloat
  laptop_hours :: pyfloat

text \<open>
  \<^verbatim>\<open>
  def calculate_additional_equivalents(co2_grams):
      if co2_grams <= 0:
          return {"phone_charges": 0, "miles_driven": 0, "led_hours": 0, "laptop_hours": 0}
      PHONE_CHARGE_CO2 = 8
      CAR_CO2_PER_MILE = 411
      LED_CO2_PER_HOUR = 0.5
      LAPTOP_CO2_PER_HOUR = 20
      return {
          "phone_charges": round(co2_grams / PHONE_CHARGE_CO2, 2),
          "miles_driven": round(co2_grams / CAR_CO2_PER_MILE, 3),
          "led_hours": round(co2_grams / LED_CO2_PER_HOUR, 1),
          "laptop_hours": round(co2_grams / LAPTOP_CO2_PER_HOUR, 2)
      }
  \<close>
\<close>

definition calculate_additional_equivalents :: "pyfloat \<Rightarrow> AdditionalEquivalents" where
  "calculate_additional_equivalents co2_grams =
     (if co2_grams \<le> 0
      then \<lparr>phone_charges = 0, miles_driven = 0, led_hours = 0, laptop_hours = 0\<rparr>
      else \<lparr>phone_charges = py_round (co2_grams / 8) 2,
            miles_driven = py_round (co2_grams / 411) 3,
            led_hours = py_round (co2_grams / 0.5) 1,
            laptop_hours = py_round (co2_grams / 20) 2\<rparr>)"

text \<open>
  The dictionary handed to the formatter. A field is \<open>None\<close> when the key is absent. The
  four quantities are floats, as both callers pass them; \<^verbatim>\<open>float(x)\<close> is then the identity and
  nothing in the \<^verbatim>\<open>try\<close> block of the formatter raises, so its
  \<^verbatim>\<open>except\<close> branch is not taken.
\<close>

record ImpactData =
  data_energy_wh :: "pyfloat option"
  data_co2_emissions_g :: "pyfloat option"
  data_carbon_intensity_g_kwh :: "pyfloat option"
  data_tree_equivalent :: "pyfloat option"
  data_source :: "string option"
  data_location :: "pyval option"
  data_timestamp :: "pyval option"

text \<open>The formatted response, an \<^verbatim>\<open>ImpactResult\<close> of the specification.\<close>

record ImpactResult =
  energy_wh :: pyfloat
  co2_emissions_g :: pyfloat
  carbon_intensity_g_kwh :: pyfloat
  tree_equivalent :: pyfloat
  equivalent_text :: string
  impact_source :: string
  impact_location :: pyval
  impact_timestamp :: pyval
  additional_equivalents :: AdditionalEquivalents

text \<open>\<^verbatim>\<open>data.get(key, default)\<close>\<close>

definition get_or :: "'a option \<Rightarrow> 'a \<Rightarrow> 'a" where
  "get_or field dflt = (case field of Some v \<Rightarrow> v | None \<Rightarrow> dflt)"

text \<open>
  \<^verbatim>\<open>
  def format_environmental_response(data):
      try:
          energy_wh = float(data.get('energy_wh', 0))
          co2_emissions_g = float(data.get('co2_emissions_g', 0))
          carbon_intensity_g_kwh = float(data.get('carbon_intensity_g_kwh', 0))
          tree_equivalent = float(data.get('tree_equivalent', 0))
          equivalent_text = generate_tree_equivalent_text(tree_equivalent)
          response = {
              "energy_wh": round(energy_wh, 6),
              "co2_emissions_g": round(co2_emissions_g, 6),
              "carbon_intensity_g_kwh": round(carbon_intensity_g_kwh, 2),
              "tree_equivalent": round(tree_equivalent, 3),
              "equivalent_text": equivalent_text,
              "source": data.get('source', 'ecologits_methodology'),
              "location": data.get('location', 'us-west-1'),
              "timestamp": data.get('timestamp', datetime.now().isoformat()),
              "additional_equivalents": calculate_additional_equivalents(co2_emissions_g)
          }
          return response
      except Exception as e: ...
  \<close>
  The parameter \<open>now\<close> is the text of \<^verbatim>\<open>datetime.now().isoformat()\<close> at the time of the call.
\<close>

definition format_environmental_response :: "string \<Rightarrow> ImpactData \<Rightarrow> ImpactResult" where
  "format_environmental_response now data =
     (let energy = get_or (data_energy_wh data) 0;
          co2 = get_or (data_co2_emissions_g data) 0;
          intensity = get_or (data_carbon_intensity_g_kwh data) 0;
          tree = get_or (data_tree_equivalent data) 0;
          text = generate_tree_equivalent_text tree
      in \<lparr>energy_wh = py_round energy 6,
          co2_emissions_g = py_round co2 6,
          carbon_intensity_g_kwh = py_round intensity 2,
          tree_equivalent = py_round tree 3,
          equivalent_text = text,
          impact_source = get_or (data_source data) ''ecologits_methodology'',
          impact_location = get_or (data_location data) (PStr ''us-west-1''),
          impact_timestamp = get_or (data_timestamp data) (PStr now),
          additional_equivalents = calculate_additional_equivalents co2\<rparr>)"

subsection \<open>Rounding in the words of the specification\<close>

text \<open>
  \<open>r\<close> is \<open>x\<close> rounded to \<open>n\<close> decimals: \<open>r\<close> has at most \<open>n\<close> decimals and no number with at
  most \<open>n\<close> decimals is nearer to \<open>x\<close> (\<open>r\<close> is within half a unit of the last decimal).
\<close>

definition rounded_to :: "nat \<Rightarrow> pyfloat \<Rightarrow> pyfloat \<Rightarrow> bool" where
  "rounded_to n x r = ((\<exists>k::int. r = of_int k / 10 ^ n) \<and> \<bar>r - x\<bar> \<le> 1 / (2 * 10 ^ n))"

text \<open>
  A result is consistent when its \<^verbatim>\<open>co2_emissions_g\<close> and its \<^verbatim>\<open>tree_equivalent\<close> are the
  roundings, to 6 and to 3 decimals, of one CO2 value and of that value divided by 50.
\<close>

definition consistent_result :: "ImpactResult \<Rightarrow> bool" where
  "consistent_result r =
     (\<exists>co2. rounded_to 6 co2 (co2_emissions_g r) \<and> rounded_to 3 (co2 / 50) (tree_equivalent r))"

subsection \<open>The request handlers (app.py)\<close>

text \<open>
  What a handler reads from outside while it serves one request: the clock (the text of
  \<^verbatim>\<open>datetime.now(...).isoformat()\<close>), the answers of the providers, and
  \<^verbatim>\<open>datetime.fromisoformat\<close>.
\<close>

record world =
  w_now :: string
  w_net :: providers
  w_fromisoformat :: "string \<Rightarrow> bool"

text \<open>The module-level state: the carbon service and \<^verbatim>\<open>cache_dict\<close>.\<close>

record app_state =
  st_carbon :: carbon_service
  st_cache :: "(string, ImpactResult) pydict"

text \<open>The JSON body of a response: \<^verbatim>\<open>{"error": ...}\<close> or a formatted result.\<close>

datatype body = ErrorBody string | ImpactBody ImpactResult

text \<open>
  What a view function returns: \<^verbatim>\<open>jsonify(x)\<close>, a Flask \<^verbatim>\<open>Response\<close> object, or the tuple
  \<^verbatim>\<open>(jsonify(x), status)\<close>.
\<close>

datatype view_return = Response body | ResponseStatus body nat

text \<open>
  \<^verbatim>\<open>
  def calculate_impact():
      try:
          data = request.get_json()
          if not data:
              return jsonify({"error": "No JSON data provided"}), 400
          validation_error = validate_request_data(data)
          if validation_error:
              return jsonify({"error": validation_error}), 400
          model = data['model']
          input_tokens = data['input_tokens']
          output_tokens = data['output_tokens']
          timestamp = data.get('timestamp', datetime.now(timezone.utc).isoformat())
          location = data.get('location', 'us-west-1')
          cache_key = f"impact:{model}:{input_tokens}:{output_tokens}:{location}"
          cached_result = get_cached_result(cache_key)
          if cached_result:
              return jsonify(cached_result)
          energy_wh = calculator.calculate_energy_consumption(
              model=model, input_tokens=input_tokens, output_tokens=output_tokens)
          carbon_intensity_g_kwh = carbon_service.get_carbon_intensity(
              location=location, timestamp=timestamp)
          co2_emissions_g = (energy_wh / 1000) * carbon_intensity_g_kwh
          tree_equivalent = co2_emissions_g / 50.0
          result = format_environmental_response({
              "energy_wh": energy_wh, "co2_emissions_g": co2_emissions_g,
              "carbon_intensity_g_kwh": carbon_intensity_g_kwh,
              "tree_equivalent": tree_equivalent,
              "source": "custom_ecologits_inspired",
              "location": location, "timestamp": timestamp})
          cache_result(cache_key, result)
          return jsonify(result)
      except Exception as e:
          return jsonify({"error": "Internal server error"}), 500
  \<close>
  The request body \<open>data\<close> is a JSON object. A validation message is never empty and a cached
  result is never an empty dictionary, so both are true in \<^verbatim>\<open>if\<close>. The success path returns
  the \<^verbatim>\<open>Response\<close> object alone, the error paths return a tuple with the status.
\<close>

definition cache_key_of :: "pyval \<Rightarrow> pyval \<Rightarrow> pyval \<Rightarrow> pyval \<Rightarrow> string" where
  "cache_key_of model input_tokens output_tokens location =
     ''impact:'' @ py_str model @ '':'' @ py_str input_tokens @ '':'' @ py_str output_tokens
       @ '':'' @ py_str location"

definition calculate_impact ::
    "world \<Rightarrow> app_state \<Rightarrow> (string, pyval) pydict \<Rightarrow> view_return \<times> app_state" where
  "calculate_impact w st data =
     (if data = [] then (ResponseStatus (ErrorBody ''No JSON data provided'') 400, st)
      else
        (case validate_request_data (w_fromisoformat w) data of
           Some validation_error \<Rightarrow> (ResponseStatus (ErrorBody validation_error) 400, st)
         | None \<Rightarrow>
             (let model = dict_item data ''model'';
                  input_tokens = dict_item data ''input_tokens'';
                  output_tokens = dict_item data ''output_tokens'';
                  timestamp = get_or (dict_get data ''timestamp'') (PStr (w_now w));
                  location = get_or (dict_get data ''location'') (PStr ''us-west-1'');
                  cache_key = cache_key_of model input_tokens output_tokens location
              in case get_cached_result (st_cache st) cache_key of
                   Some cached_result \<Rightarrow> (Response (ImpactBody cached_result), st)
                 | None \<Rightarrow>
                     (case calculate_energy_consumption (str_value model)
                             (int_value input_tokens) (int_value output_tokens) of
                        Inl e \<Rightarrow> (ResponseStatus (ErrorBody ''Internal server error'') 500, st)
                      | Inr energy \<Rightarrow>
                          (let (intensity, svc) =
                                 get_carbon_intensity (w_net w) (st_carbon st) location;
                               co2 = (energy / 1000) * intensity;
                               tree = co2 / 50;
                               result = format_environmental_response (w_now w)
                                 \<lparr>data_energy_wh = Some energy,
                                  data_co2_emissions_g = Some co2,
                                  data_carbon_intensity_g_kwh = Some intensity,
                                  data_tree_equivalent = Some tree,
                                  data_source = Some ''custom_ecologits_inspired'',
                                  data_location = Some location,
                                  data_timestamp = Some timestamp\<rparr>
                           in (Response (ImpactBody result),
                               \<lparr>st_carbon = svc,
                                st_cache = cache_result cache_key result (st_cache st)\<rparr>))))))"

text \<open>
  \<^verbatim>\<open>response[1]\<close>: the status of a tuple. A Flask \<^verbatim>\<open>Response\<close> object has no
  \<^verbatim>\<open>__getitem__\<close>, so that subscripting it raises \<^verbatim>\<open>TypeError\<close>.
\<close>

definition not_subscriptable :: string where
  "not_subscriptable = CHR 0x27 # ''Response'' @ CHR 0x27 # '' object is not subscriptable''"

fun response_item_1 :: "view_return \<Rightarrow> py_error + nat" where
  "response_item_1 (ResponseStatus b status) = Inr status"
| "response_item_1 (Response b) = Inl (TypeError not_subscriptable)"

text \<open>\<^verbatim>\<open>response[0].get_json()\<close> on a tuple.\<close>

fun response_item_0_json :: "view_return \<Rightarrow> body" where
  "response_item_0_json (ResponseStatus b status) = b"
| "response_item_0_json (Response b) = b"

text \<open>
  The body of the loop of \<^verbatim>\<open>batch_calculate\<close> for the record number \<open>i\<close>:
  \<^verbatim>\<open>
  try:
      validation_error = validate_request_data(record)
      if validation_error:
          results.append({"error": f"Record {i}: {validation_error}"})
          continue
      with app.test_request_context('/calculate-impact', json=record):
          response = calculate_impact()
          if response[1] == 200:
              results.append(response[0].get_json())
          else:
              results.append({"error": f"Calculation failed for record {i}"})
  except Exception as e:
      results.append({"error": f"Record {i}: {str(e)}"})
  \<close>
  It returns the entry appended to \<^verbatim>\<open>results\<close> and the state.
\<close>

definition batch_record ::
    "world \<Rightarrow> nat \<Rightarrow> (string, pyval) pydict \<Rightarrow> app_state \<Rightarrow> body \<times> app_state" where
  "batch_record w i record st =
     (case validate_request_data (w_fromisoformat w) record of
        Some validation_error \<Rightarrow>
          (ErrorBody (''Record '' @ str_nat i @ '': '' @ validation_error), st)
      | None \<Rightarrow>
          (let (response, st') = calculate_impact w st record
           in case response_item_1 response of
                Inl e \<Rightarrow> (ErrorBody (''Record '' @ str_nat i @ '': '' @ str_error e), st')
              | Inr status \<Rightarrow>
                  if status = 200 then (response_item_0_json response, st')
                  else (ErrorBody (''Calculation failed for record '' @ str_nat i), st')))"

text \<open>
  \<^verbatim>\<open>for i, record in enumerate(records): ...\<close>, from the index \<open>i\<close> on. \<open>ws i\<close> is the
  world while the record number \<open>i\<close> is served.
\<close>

fun batch_loop ::
    "(nat \<Rightarrow> world) \<Rightarrow> nat \<Rightarrow> (string, pyval) pydict list \<Rightarrow> app_state \<Rightarrow>
     body list \<times> app_state" where
  "batch_loop ws i [] st = ([], st)"
| "batch_loop ws i (record # records) st =
     (let (entry, st') = batch_record (ws i) i record st;
          (entries, st'') = batch_loop ws (Suc i) records st'
      in (entry # entries, st''))"

text \<open>The answer of \<^verbatim>\<open>batch_calculate\<close>: an error with its status, or the results.\<close>

datatype batch_return = BatchError string nat | BatchResults "body list"

text \<open>
  \<^verbatim>\<open>
  def batch_calculate():
      try:
          data = request.get_json()
          if not data or 'records' not in data:
              return jsonify({"error": "No records provided"}), 400
          records = data['records']
          if len(records) > 1000:
              return jsonify({"error": "Batch size too large (max 1000)"}), 400
          results = []
          for i, record in enumerate(records): ...
          return jsonify({"results": results})
      except Exception as e: ...
  \<close>
  The argument is the list under \<^verbatim>\<open>records\<close>, a list of JSON objects, or \<open>None\<close> when there is
  no body or no such key.
\<close>

definition batch_calculate ::
    "(nat \<Rightarrow> world) \<Rightarrow> app_state \<Rightarrow> (string, pyval) pydict list option \<Rightarrow>
     batch_return \<times> app_state" where
  "batch_calculate ws st request =
     (case request of
        None \<Rightarrow> (BatchError ''No records provided'' 400, st)
      | Some records \<Rightarrow>
          if length records > 1000 then (BatchError ''Batch size too large (max 1000)'' 400, st)
          else (let (results, st') = batch_loop ws 0 records st in (BatchResults results, st')))"

subsection \<open>The entries of a batch\<close>

text \<open>
  The entry that the loop of \<^verbatim>\<open>batch_calculate\<close> appends for a record: the validation
  message when there is one; otherwise \<^verbatim>\<open>calculate_impact\<close> returns a bare \<^verbatim>\<open>Response\<close>,
  \<^verbatim>\<open>response[1]\<close> raises \<^verbatim>\<open>TypeError\<close>, and the handler of the loop body records the text of
  that exception. No record yields a result.
\<close>

definition batch_entry :: "world \<Rightarrow> nat \<Rightarrow> (string, pyval) pydict \<Rightarrow> body" where
  "batch_entry w i record =
     ErrorBody (''Record '' @ str_nat i @ '': '' @
       (case validate_request_data (w_fromisoformat w) record of
          Some validation_error \<Rightarrow> validation_error
        | None \<Rightarrow> not_subscriptable))"

subsection \<open>Configurations used as examples\<close>

text \<open>
  Providers that answer the WattTime login and miss on every request for a value; a service
  without credentials, as \<^verbatim>\<open>os.getenv\<close> leaves it when no variable is set; and a service
  with all three credentials.
\<close>

definition silent_providers :: providers where
  "silent_providers =
     \<lparr>em_latest = (\<lambda>t z. None), wt_login = (\<lambda>u p. Some ''token''),
      wt_index = (\<lambda>t r. None)\<rparr>"

text \<open>
  Providers that deliver values: 250 gCO2/kWh from ElectricityMaps and 800 lbs/MWh from
  WattTime; and providers whose ElectricityMaps value is negative.
\<close>

definition live_providers :: providers where
  "live_providers =
     \<lparr>em_latest = (\<lambda>t z. Some 250), wt_login = (\<lambda>u p. Some ''token''),
      wt_index = (\<lambda>t r. Some 800)\<rparr>"

definition negative_providers :: providers where
  "negative_providers =
     \<lparr>em_latest = (\<lambda>t z. Some (- 5)), wt_login = (\<lambda>u p. Some ''token''),
      wt_index = (\<lambda>t r. None)\<rparr>"

definition unconfigured_service :: carbon_service where
  "unconfigured_service =
     \<lparr>electricity_maps_token = None, watt_time_username = None,
      watt_time_password = None, watt_time_token = None\<rparr>"

definition configured_service :: carbon_service where
  "configured_service =
     \<lparr>electricity_maps_token = Some ''key'', watt_time_username = Some ''user'',
      watt_time_password = Some ''secret'', watt_time_token = None\<rparr>"

text \<open>
  A stand-in for \<^verbatim>\<open>datetime.fromisoformat\<close> in examples: it accepts one timestamp, which
  \<^verbatim>\<open>datetime.fromisoformat\<close> accepts as well, and nothing else.
\<close>

definition example_fromisoformat :: "string \<Rightarrow> bool" where
  "example_fromisoformat s = (s = ''2025-06-25T10:30:00+00:00'')"

text \<open>
  The example of the specification: 150 input and 500 output tokens of
  \<^verbatim>\<open>claude-3-5-sonnet-20241022\<close> in \<^verbatim>\<open>us-west-1\<close>, served without providers from an empty cache;
  and a record without the field \<^verbatim>\<open>model\<close>.
\<close>

definition example_world :: world where
  "example_world =
     \<lparr>w_now = ''2025-06-25T10:30:00+00:00'', w_net = silent_providers,
      w_fromisoformat = example_fromisoformat\<rparr>"

definition initial_state :: app_state where
  "initial_state = \<lparr>st_carbon = unconfigured_service, st_cache = []\<rparr>"

definition example_request :: "(string, pyval) pydict" where
  "example_request =
     [(''model'', PStr ''claude-3-5-sonnet-20241022''), (''input_tokens'', PInt 150),
      (''output_tokens'', PInt 500), (''location'', PStr ''us-west-1'')]"

definition record_without_model :: "(string, pyval) pydict" where
  "record_without_model = [(''input_tokens'', PInt 150), (''output_tokens'', PInt 500)]"

text \<open>The quantities of the example as the test script hands them to the formatter.\<close>

definition example_impact_data :: ImpactData where
  "example_impact_data =
     \<lparr>data_energy_wh = Some 0.175, data_co2_emissions_g = Some 0.06125,
      data_carbon_intensity_g_kwh = Some 350, data_tree_equivalent = Some 0.001225,
      data_source = Some ''test_calculation'', data_location = Some (PStr ''us-west-1''),
      data_timestamp = None\<rparr>"

text \<open>The result that the example of the specification returns.\<close>

definition example_result :: ImpactResult where
  "example_result =
     \<lparr>energy_wh = 0.175, co2_emissions_g = 0.06125, carbon_intensity_g_kwh = 350,
      tree_equivalent = 0.001,
      equivalent_text = ''less than 1% of what a tree absorbs daily'',
      impact_source = ''custom_ecologits_inspired'', impact_location = PStr ''us-west-1'',
      impact_timestamp = PStr ''2025-06-25T10:30:00+00:00'',
      additional_equivalents =
        \<lparr>phone_charges = 0.01, miles_driven = 0, led_hours = 0.1, laptop_hours = 0\<rparr>\<rparr>"

section \<open>Properties\<close>


subsection \<open>The cache\<close>

lemma dict_set_fresh: "k \<notin> fst ` set d \<Longrightarrow> dict_set k v d = d @ [(k, v)]"
  by (induction d) auto

lemma dict_set_keys: "fst ` set (dict_set k v d) = insert k (fst ` set d)"
proof (induction d)
  case Nil
  then show ?case by simp
next
  case (Cons p d)
  then show ?case by (cases p) (simp add: insert_commute)
qed

lemma dict_set_length_le: "length (dict_set k v d) \<le> Suc (length d)"
  by (induction d) auto

lemma dict_set_distinct: "distinct (map fst d) \<Longrightarrow> distinct (map fst (dict_set k v d))"
proof (induction d)
  case Nil
  then show ?case by simp
next
  case (Cons p d)
  obtain k' v' where p: "p = (k', v')" by (cases p)
  from Cons have ih: "distinct (map fst (dict_set k v d))" by simp
  from Cons.prems p have "k' \<notin> fst ` set d" by auto
  then have "k' \<noteq> k \<Longrightarrow> k' \<notin> fst ` set (dict_set k v d)"
    by (simp add: dict_set_keys)
  with Cons.prems ih p show ?case by auto
qed

lemma del_keys_prefix:
  "distinct (map fst d) \<Longrightarrow> del_keys (take n (map fst d)) d = drop n d"
proof (induction d arbitrary: n)
  case Nil
  then show ?case by simp
next
  case (Cons p d)
  show ?case
  proof (cases n)
    case 0
    then show ?thesis by simp
  next
    case (Suc m)
    from Cons.prems have "distinct (map fst d)" by simp
    then have "del_keys (take m (map fst d)) d = drop m d" by (rule Cons.IH)
    with Suc show ?thesis by (cases p) simp
  qed
qed

lemma cache_result_length:
  "distinct (map fst d) \<Longrightarrow> length d \<le> 1000 \<Longrightarrow> length (cache_result k v d) \<le> 1000"
proof -
  assume dist: "distinct (map fst d)" and len: "length d \<le> 1000"
  let ?d = "dict_set k v d"
  have "distinct (map fst ?d)" using dist by (rule dict_set_distinct)
  then have "del_keys (take 200 (map fst ?d)) ?d = drop 200 ?d" by (rule del_keys_prefix)
  moreover have "length ?d \<le> 1001" using dict_set_length_le [of k v d] len by simp
  then have "length ?d - 200 \<le> 1000" by arith
  ultimately show ?thesis by (simp add: cache_result_def Let_def)
qed

lemma cache_result_distinct:
  "distinct (map fst d) \<Longrightarrow> distinct (map fst (cache_result k v d))"
proof -
  assume dist: "distinct (map fst d)"
  let ?d = "dict_set k v d"
  have d: "distinct (map fst ?d)" using dist by (rule dict_set_distinct)
  then have "del_keys (take 200 (map fst ?d)) ?d = drop 200 ?d" by (rule del_keys_prefix)
  moreover have "distinct (map fst (drop 200 ?d))"
    using d by (simp add: drop_map [symmetric] distinct_drop)
  ultimately show ?thesis using d by (simp add: cache_result_def Let_def)
qed

lemma cache_writes_snoc:
  "cache_writes (ws @ [(k, v)]) d = cache_result k v (cache_writes ws d)"
  by (simp add: cache_writes_def)

lemma evicted_count_le: "evicted_count m \<le> m"
proof -
  have "200 * ((m - 801) div 200) \<le> m - 801" by (rule times_div_less_eq_dividend)
  then show ?thesis unfolding evicted_count_def by linarith
qed

lemma evicted_count_step:
  "evicted_count (Suc m) =
     (if Suc m - evicted_count m > 1000 then evicted_count m + 200 else evicted_count m)"
proof (cases "m < 801")
  case True
  then have "(m - 801) div 200 = 0" "(Suc m - 801) div 200 = 0" by simp_all
  with True show ?thesis by (simp add: evicted_count_def)
next
  case False
  define a where "a = m - 801"
  define q where "q = a div 200"
  define r where "r = a mod 200"
  have m: "m = a + 801" using False by (simp add: a_def)
  have a: "a = 200 * q + r" by (simp add: q_def r_def)
  have r: "r < 200" by (simp add: r_def)
  have s: "Suc m - 801 = Suc a" using m by simp
  have ec: "evicted_count m = 200 * q" by (simp add: evicted_count_def a_def q_def)
  have ec': "evicted_count (Suc m) = 200 * (Suc a div 200)" unfolding evicted_count_def s ..
  show ?thesis
  proof (cases "r = 199")
    case True
    then have "Suc a = 200 * Suc q" using a by simp
    then have "Suc a div 200 = Suc q" by simp
    then have "evicted_count (Suc m) = 200 * q + 200" by (simp add: ec')
    moreover have "Suc m - 200 * q > 1000" using m a True by simp
    ultimately show ?thesis by (simp add: ec)
  next
    case False
    with r have r': "Suc r < 200" by simp
    have "Suc a = 200 * q + Suc r" using a by simp
    then have "Suc a div 200 = q" using r' by simp
    then have "evicted_count (Suc m) = 200 * q" by (simp add: ec')
    moreover have "\<not> Suc m - 200 * q > 1000" using m a r' by simp
    ultimately show ?thesis by (simp add: ec)
  qed
qed


lemma cache_writes_suffix:
  "distinct (map fst ws) \<Longrightarrow> cache_writes ws [] = drop (evicted_count (length ws)) ws"
proof (induction ws rule: rev_induct)
  case Nil
  then show ?case by (simp add: cache_writes_def)
next
  case (snoc w ws)
  obtain k v where w: "w = (k, v)" by (cases w)
  let ?n = "evicted_count (length ws)"
  from snoc.prems w have fresh: "k \<notin> fst ` set ws" and dist: "distinct (map fst ws)" by auto
  from snoc.IH dist have ih: "cache_writes ws [] = drop ?n ws" by simp
  have n: "?n \<le> length ws" by (rule evicted_count_le)
  have "k \<notin> fst ` set (drop ?n ws)" using fresh by (auto dest: in_set_dropD)
  then have set: "dict_set k v (drop ?n ws) = drop ?n (ws @ [w])"
    using n w by (simp add: dict_set_fresh)
  have dd: "distinct (map fst (drop ?n (ws @ [w])))"
    using snoc.prems by (simp only: drop_map [symmetric] distinct_drop)
  have del: "del_keys (take 200 (map fst (drop ?n (ws @ [w])))) (drop ?n (ws @ [w])) = drop 200 (drop ?n (ws @ [w]))"
    using dd by (rule del_keys_prefix)
  have len: "length (drop ?n (ws @ [w])) = Suc (length ws) - ?n" by simp
  have "cache_writes (ws @ [w]) [] = cache_result k v (drop ?n ws)"
    using ih w by (simp add: cache_writes_snoc)
  also have "\<dots> = (if Suc (length ws) - ?n > 1000 then drop (?n + 200) (ws @ [w]) else drop ?n (ws @ [w]))"
    unfolding cache_result_def Let_def set del len by (simp add: add.commute)
  also have "\<dots> = drop (evicted_count (length (ws @ [w]))) (ws @ [w])"
    by (simp add: evicted_count_step)
  finally show ?case .
qed

lemma cache_writes_invariant:
  "distinct (map fst (cache_writes ws [])) \<and> length (cache_writes ws []) \<le> 1000"
proof (induction ws rule: rev_induct)
  case Nil
  then show ?case by (simp add: cache_writes_def)
next
  case (snoc w ws)
  then show ?case
    by (cases w) (simp add: cache_writes_snoc cache_result_length cache_result_distinct)
qed

text \<open>
  Claim C7. Starting from the empty cache, after every write the cache holds at most 1000
  entries. When the keys written are distinct, the sequence of writes splits into the evicted
  entries followed by the content of the cache: the evicted keys are exactly the earliest
  inserted ones, every surviving key was inserted after every evicted one, and eviction
  removes 200 entries each time the size passes 1000.
\<close>

theorem cache_bounded_oldest_evicted:
  "length (cache_writes ws []) \<le> 1000 \<and>
   (distinct (map fst ws) \<longrightarrow>
      (\<exists>evicted. ws = evicted @ cache_writes ws [] \<and>
         length evicted = evicted_count (length ws)))"
proof (intro conjI impI)
  show "length (cache_writes ws []) \<le> 1000" using cache_writes_invariant [of ws] by simp
next
  assume "distinct (map fst ws)"
  then have eq: "cache_writes ws [] = drop (evicted_count (length ws)) ws"
    by (rule cache_writes_suffix)
  have "ws = take (evicted_count (length ws)) ws @ cache_writes ws []"
    by (simp add: eq)
  moreover have "length (take (evicted_count (length ws)) ws) = evicted_count (length ws)"
    using evicted_count_le [of "length ws"] by simp
  ultimately show "\<exists>evicted. ws = evicted @ cache_writes ws [] \<and>
         length evicted = evicted_count (length ws)" by blast
qed

theorem cache_bounded_oldest_evicted_witness:
  "distinct (map fst (map (\<lambda>i. (i, i)) [0..<1001])) \<and>
   length (cache_writes (map (\<lambda>i. (i, i)) [0..<1001]) []) \<le> 1000 \<and>
   cache_writes (map (\<lambda>i. (i, i)) [0..<1001]) [] = map (\<lambda>i. (i, i)) [200..<1001]"
proof -
  let ?ws = "map (\<lambda>i::nat. (i, i)) [0..<1001]"
  have d: "distinct (map fst ?ws)" by (simp add: comp_def)
  have ec: "evicted_count (length ?ws) = 200" by (simp add: evicted_count_def)
  from cache_bounded_oldest_evicted [of ?ws] d ec
  obtain evicted where len: "length (cache_writes ?ws []) \<le> 1000"
    and split: "?ws = evicted @ cache_writes ?ws []" and ev: "length evicted = 200"
    by auto
  from split have "drop (length evicted) ?ws = cache_writes ?ws []"
    by (metis append_eq_conv_conj)
  with ev have "cache_writes ?ws [] = drop 200 ?ws" by simp
  also have "\<dots> = map (\<lambda>i. (i, i)) [200..<1001]" by (simp add: drop_map)
  finally show ?thesis using d len by simp
qed

subsection \<open>Location normalisation and the fallback table\<close>

lemma lower_char_idem: "lower_char (lower_char c) = lower_char c"
  by (auto simp: lower_char_def Let_def)

lemma is_space_lower_char: "is_space (lower_char c) = is_space c"
  by (auto simp: lower_char_def is_space_def Let_def)

lemma lower_idem: "lower (lower s) = lower s"
  by (simp add: lower_def lower_char_idem)

lemma dropWhile_space_lower:
  "dropWhile is_space (lower s) = lower (dropWhile is_space s)"
  by (simp add: lower_def dropWhile_map comp_def is_space_lower_char)

lemma rev_lower: "rev (lower s) = lower (rev s)"
  by (simp add: lower_def rev_map)

lemma strip_lower: "strip (lower s) = lower (strip s)"
  by (simp add: strip_def dropWhile_space_lower rev_lower)

lemma dropWhile_rev_dropWhile_rev:
  "t = [] \<or> \<not> P (hd t) \<Longrightarrow>
   dropWhile P (rev (dropWhile P (rev t))) = rev (dropWhile P (rev t))"
proof (cases t)
  case Nil
  then show ?thesis by simp
next
  case (Cons c u)
  assume "t = [] \<or> \<not> P (hd t)"
  with Cons have c: "\<not> P c" by simp
  have "\<exists>w. dropWhile P (ys @ [c]) = w @ [c]" for ys
    using c by (induction ys) auto
  then obtain w where "dropWhile P (rev u @ [c]) = w @ [c]" by blast
  then have "rev (dropWhile P (rev (c # u))) = c # rev w" by simp
  with c Cons show ?thesis by simp
qed

lemma dropWhile_rev_dropWhile:
  "dropWhile P (rev (dropWhile P (rev (dropWhile P s)))) = rev (dropWhile P (rev (dropWhile P s)))"
proof (rule dropWhile_rev_dropWhile_rev)
  show "dropWhile P s = [] \<or> \<not> P (hd (dropWhile P s))"
    by (cases "dropWhile P s = []") (auto simp: hd_dropWhile)
qed

lemma strip_idem: "strip (strip s) = strip s"
proof -
  let ?t = "rev (dropWhile is_space (rev (dropWhile is_space s)))"
  have "dropWhile is_space ?t = ?t" by (rule dropWhile_rev_dropWhile)
  moreover have "dropWhile is_space (dropWhile is_space (rev (dropWhile is_space s)))
      = dropWhile is_space (rev (dropWhile is_space s))" by (simp add: dropWhile_idem)
  ultimately show ?thesis by (simp add: strip_def)
qed

lemma strip_lower_fixed: "strip (lower (strip (lower s))) = strip (lower s)"
  by (simp add: strip_lower lower_idem strip_idem)

lemma aws_regions_values:
  "dict_get aws_regions t = Some r \<Longrightarrow> r = t \<and> r \<in> fst ` set aws_regions"
  by (auto simp: dict_get_def aws_regions_def split: if_splits)

lemma location_mapping_values:
  "dict_get location_mapping t = Some r \<Longrightarrow> r \<in> fst ` set aws_regions"
  by (auto simp: dict_get_def aws_regions_def location_mapping_def split: if_splits)

lemma normalize_location_canonical:
  "r \<in> fst ` set aws_regions \<Longrightarrow> normalize_location r = r"
  unfolding aws_regions_def by (auto simp: normalize_location_def; code_simp)

text \<open>
  Claim C10. Normalising a location twice gives the same result as normalising it once: the
  canonical region codes and the strings that pass through unrecognised are fixed points.
\<close>

theorem normalize_location_idempotent:
  "normalize_location (normalize_location s) = normalize_location s"
proof -
  let ?t = "strip (lower s)"
  show ?thesis
  proof (cases "dict_get aws_regions ?t")
    case (Some r)
    then have "normalize_location s = r" by (simp add: normalize_location_def)
    moreover have "normalize_location r = r"
      using Some aws_regions_values normalize_location_canonical by blast
    ultimately show ?thesis by simp
  next
    case None
    note aws = None
    show ?thesis
    proof (cases "dict_get location_mapping ?t")
      case (Some r)
      with aws have "normalize_location s = r" by (simp add: normalize_location_def)
      moreover have "normalize_location r = r"
        using Some location_mapping_values normalize_location_canonical by blast
      ultimately show ?thesis by simp
    next
      case None
      with aws have eq: "normalize_location s = ?t" by (simp add: normalize_location_def)
      have "normalize_location ?t = ?t"
        using aws None by (simp add: normalize_location_def strip_lower_fixed)
      with eq show ?thesis by simp
    qed
  qed
qed

text \<open>White space beyond ASCII is stripped too: a no-break space after the region code.\<close>

lemma normalize_location_no_break_space:
  "normalize_location (''us-west-1'' @ [CHR 0xA0]) = ''us-west-1''"
  by code_simp

lemma get_fallback_intensity_positive: "0 < get_fallback_intensity l"
  by (simp add: get_fallback_intensity_def dict_get_def regional_fallbacks_def)

lemma get_fallback_intensity_default:
  "l \<notin> fst ` set regional_fallbacks \<Longrightarrow> get_fallback_intensity l = 400"
  by (simp add: get_fallback_intensity_def dict_get_def regional_fallbacks_def)

lemma get_electricity_maps_intensity_miss:
  "\<forall>t z. em_latest net t z = None \<Longrightarrow> get_electricity_maps_intensity net svc l = None"
  by (simp add: get_electricity_maps_intensity_def split: option.splits)

lemma get_watt_time_intensity_miss:
  "\<forall>t r. wt_index net t r = None \<Longrightarrow> fst (get_watt_time_intensity net svc l) = None"
  by (simp add: get_watt_time_intensity_def Let_def split: option.splits)

lemma get_carbon_intensity_no_live:
  assumes "\<not> truthy_str (electricity_maps_token svc) \<or> (\<forall>t z. em_latest net t z = None)"
    and "\<not> truthy_str (watt_time_username svc) \<or> (\<forall>t r. wt_index net t r = None)"
  shows "fst (get_carbon_intensity net svc (PStr loc)) = get_fallback_intensity (normalize_location loc)"
proof -
  let ?l = "normalize_location loc"
  have em: "(if truthy_str (electricity_maps_token svc)
             then get_electricity_maps_intensity net svc ?l else None) = None"
    using assms(1) by (auto simp: get_electricity_maps_intensity_miss)
  show ?thesis
  proof (cases "startswith ?l ''us-'' \<and> truthy_str (watt_time_username svc)")
    case True
    with assms(2) have "fst (get_watt_time_intensity net svc ?l) = None"
      by (simp add: get_watt_time_intensity_miss)
    then obtain svc' where "get_watt_time_intensity net svc ?l = (None, svc')"
      by (cases "get_watt_time_intensity net svc ?l") simp
    with True em show ?thesis by (simp add: get_carbon_intensity_def Let_def)
  next
    case False
    with em show ?thesis by (auto simp: get_carbon_intensity_def Let_def)
  qed
qed

lemma get_carbon_intensity_not_str:
  "(\<forall>s. location \<noteq> PStr s) \<Longrightarrow> fst (get_carbon_intensity net svc location) = 400"
  by (cases location) (simp_all add: get_carbon_intensity_def dict_get_def regional_fallbacks_def)

lemma no_live_provider_fallback:
  assumes "\<not> truthy_str (electricity_maps_token svc) \<or> (\<forall>t z. em_latest net t z = None)"
    and "\<not> truthy_str (watt_time_username svc) \<or> (\<forall>t r. wt_index net t r = None)"
  shows "0 < fst (get_carbon_intensity net svc location) \<and>
         (\<forall>loc. location = PStr loc \<longrightarrow>
            fst (get_carbon_intensity net svc location) =
              get_fallback_intensity (normalize_location loc) \<and>
            (normalize_location loc \<notin> fst ` set regional_fallbacks \<longrightarrow>
               fst (get_carbon_intensity net svc location) = 400))"
proof (cases "\<exists>loc. location = PStr loc")
  case True
  then obtain loc where "location = PStr loc" ..
  with assms show ?thesis
    by (simp add: get_carbon_intensity_no_live get_fallback_intensity_positive
        get_fallback_intensity_default)
next
  case False
  then show ?thesis by (simp add: get_carbon_intensity_not_str)
qed

lemma get_electricity_maps_intensity_nonneg:
  assumes "\<forall>t z v. em_latest net t z = Some v \<longrightarrow> 0 \<le> v"
    and "get_electricity_maps_intensity net svc l = Some v"
  shows "0 \<le> v"
  using assms by (auto simp: get_electricity_maps_intensity_def split: option.splits)

lemma get_watt_time_intensity_nonneg:
  assumes "\<forall>t r v. wt_index net t r = Some v \<longrightarrow> 0 \<le> v"
    and "fst (get_watt_time_intensity net svc l) = Some w"
  shows "0 \<le> w"
proof -
  from assms(2) obtain token region moer where "wt_index net token region = Some moer"
    and w: "w = moer * 453.592 / 1000"
    by (auto simp: get_watt_time_intensity_def Let_def split: option.splits if_splits)
  with assms(1) have "0 \<le> moer" by blast
  with w show ?thesis by simp
qed

lemma get_carbon_intensity_positive:
  assumes "\<forall>t z v. em_latest net t z = Some v \<longrightarrow> 0 \<le> v"
    and "\<forall>t r v. wt_index net t r = Some v \<longrightarrow> 0 \<le> v"
  shows "0 < fst (get_carbon_intensity net svc location)"
proof (cases "\<exists>loc. location = PStr loc")
  case False
  then show ?thesis by (simp add: get_carbon_intensity_not_str)
next
  case True
  then obtain loc where loc: "location = PStr loc" ..
  let ?l = "normalize_location loc"
  let ?em = "if truthy_str (electricity_maps_token svc)
             then get_electricity_maps_intensity net svc ?l else None"
  show ?thesis
  proof (cases "truthy_float ?em")
    case True
    then obtain v where v: "?em = Some v" and nz: "v \<noteq> 0" by (cases ?em) auto
    from v have "get_electricity_maps_intensity net svc ?l = Some v"
      by (auto split: if_splits)
    with assms(1) have "0 \<le> v" by (rule get_electricity_maps_intensity_nonneg)
    with nz have "0 < v" by simp
    with True v loc show ?thesis by (simp add: get_carbon_intensity_def Let_def)
  next
    case False
    note no_em = False
    show ?thesis
    proof (cases "startswith ?l ''us-'' \<and> truthy_str (watt_time_username svc)")
      case False
      with no_em loc show ?thesis
        by (auto simp: get_carbon_intensity_def Let_def get_fallback_intensity_positive)
    next
      case True
      obtain wt svc' where g: "get_watt_time_intensity net svc ?l = (wt, svc')"
        by (cases "get_watt_time_intensity net svc ?l")
      show ?thesis
      proof (cases "truthy_float wt")
        case False
        with no_em True g loc show ?thesis
          by (simp add: get_carbon_intensity_def Let_def get_fallback_intensity_positive)
      next
        case wtrue: True
        then obtain w where w: "wt = Some w" and nz: "w \<noteq> 0" by (cases wt) auto
        from g w have "fst (get_watt_time_intensity net svc ?l) = Some w" by simp
        with assms(2) have "0 \<le> w" by (rule get_watt_time_intensity_nonneg)
        with nz have "0 < w" by simp
        with no_em True g w wtrue loc show ?thesis
          by (simp add: get_carbon_intensity_def Let_def)
      qed
    qed
  qed
qed

text \<open>
  Claim C4, amended. When no live provider delivers a value (each one is either not
  configured or misses on every request), the resolved intensity of every location is
  strictly positive; for a location given as a string it is the entry of the regional table
  for the canonical form, and exactly the global default 400 when the canonical form is not a
  key of the table. On the paths where a provider delivers a value, the code returns it as it
  is unless it is zero: the resolved intensity is strictly positive on every path when the
  values that the providers deliver are not negative.
\<close>

theorem intensity_default_and_positive:
  "((\<not> truthy_str (electricity_maps_token svc) \<or> (\<forall>t z. em_latest net t z = None)) \<and>
    (\<not> truthy_str (watt_time_username svc) \<or> (\<forall>t r. wt_index net t r = None)) \<longrightarrow>
      0 < fst (get_carbon_intensity net svc location) \<and>
      (\<forall>loc. location = PStr loc \<longrightarrow>
         fst (get_carbon_intensity net svc location) =
           get_fallback_intensity (normalize_location loc) \<and>
         (normalize_location loc \<notin> fst ` set regional_fallbacks \<longrightarrow>
            fst (get_carbon_intensity net svc location) = 400))) \<and>
   ((\<forall>t z v. em_latest net t z = Some v \<longrightarrow> 0 \<le> v) \<and>
    (\<forall>t r v. wt_index net t r = Some v \<longrightarrow> 0 \<le> v) \<longrightarrow>
      0 < fst (get_carbon_intensity net svc location))"
  using no_live_provider_fallback [of svc net location]
    get_carbon_intensity_positive [of net svc location]
  by blast

theorem intensity_default_and_positive_witness:
  "\<not> truthy_str (electricity_maps_token unconfigured_service) \<and>
   \<not> truthy_str (watt_time_username unconfigured_service) \<and>
   (\<forall>t z. em_latest silent_providers t z = None) \<and>
   (\<forall>t r. wt_index silent_providers t r = None) \<and>
   normalize_location ''  Mars '' = ''mars'' \<and>
   ''mars'' \<notin> fst ` set regional_fallbacks \<and>
   fst (get_carbon_intensity silent_providers unconfigured_service (PStr ''  Mars '')) = 400 \<and>
   fst (get_carbon_intensity silent_providers configured_service (PStr ''California'')) = 350 \<and>
   fst (get_carbon_intensity live_providers configured_service (PStr ''California'')) = 250 \<and>
   0 < fst (get_carbon_intensity live_providers configured_service (PStr ''California''))"
proof -
  have a: "\<not> truthy_str (electricity_maps_token unconfigured_service)"
    and b: "\<not> truthy_str (watt_time_username unconfigured_service)"
    by (simp_all add: unconfigured_service_def)
  have a': "\<forall>t z. em_latest silent_providers t z = None"
    and b': "\<forall>t r. wt_index silent_providers t r = None"
    by (simp_all add: silent_providers_def)
  have n: "normalize_location ''  Mars '' = ''mars''" by code_simp
  have m: "''mars'' \<notin> fst ` set regional_fallbacks" by (simp add: regional_fallbacks_def)
  have c: "normalize_location ''California'' = ''us-west-1''" by code_simp
  have f: "get_fallback_intensity ''us-west-1'' = 350" by code_simp
  have l: "(\<forall>t z v. em_latest live_providers t z = Some v \<longrightarrow> 0 \<le> v) \<and>
      (\<forall>t r v. wt_index live_providers t r = Some v \<longrightarrow> 0 \<le> v)"
    by (auto simp: live_providers_def)
  have v: "fst (get_carbon_intensity live_providers configured_service (PStr ''California'')) = 250"
    by code_simp
  from intensity_default_and_positive [of unconfigured_service silent_providers
      "PStr ''  Mars ''"] a b n m
  have 1: "fst (get_carbon_intensity silent_providers unconfigured_service (PStr ''  Mars '')) = 400"
    by simp
  from intensity_default_and_positive [of configured_service silent_providers
      "PStr ''California''"] a' b' c f
  have 2: "fst (get_carbon_intensity silent_providers configured_service (PStr ''California'')) = 350"
    by simp
  from intensity_default_and_positive [of configured_service live_providers
      "PStr ''California''"] l
  have 3: "0 < fst (get_carbon_intensity live_providers configured_service (PStr ''California''))"
    by blast
  from a b a' b' n m 1 2 v 3 show ?thesis by simp
qed

text \<open>
  Claim C4 as stated, with the intensity strictly positive on every path that is not an
  error path, fails on a path with a live provider: a value of \<open>-5\<close> from ElectricityMaps is
  not zero, so \<^verbatim>\<open>if intensity:\<close> holds and the code returns it.
\<close>

theorem negative_provider_value_counterexample:
  "truthy_str (electricity_maps_token configured_service) \<and>
   em_latest negative_providers ''key'' ''US-CAL-CISO'' = Some (- 5) \<and>
   fst (get_carbon_intensity negative_providers configured_service (PStr ''us-west-1'')) = - 5"
  by code_simp

subsection \<open>Binary64 arithmetic\<close>

lemma round_half_even_near: "\<bar>of_int (round_half_even y) - y\<bar> \<le> 1 / 2"
proof -
  define f where "f = \<lfloor>y\<rfloor>"
  define r where "r = y - of_int f"
  have r0: "0 \<le> r" and r1: "r < 1"
    unfolding r_def f_def by linarith+
  have y: "y = of_int f + r" by (simp add: r_def)
  have "round_half_even y = (if r < 1 / 2 then f else if 1 / 2 < r then f + 1
          else if even f then f else f + 1)"
    by (simp add: round_half_even_def Let_def f_def r_def)
  then consider "round_half_even y = f" "r \<le> 1 / 2" | "round_half_even y = f + 1" "1 / 2 \<le> r"
    by (cases "r < 1 / 2"; cases "1 / 2 < r"; cases "even f") auto
  then show ?thesis
  proof cases
    case 1
    then show ?thesis using r0 y by simp
  next
    case 2
    then show ?thesis using r1 y by simp
  qed
qed

lemma round_half_even_nonneg: "0 \<le> y \<Longrightarrow> 0 \<le> round_half_even y"
proof -
  assume "0 \<le> y"
  then have "0 \<le> \<lfloor>y\<rfloor>" by simp
  then show ?thesis by (simp add: round_half_even_def Let_def)
qed

lemma binary_exponent_le:
  assumes "x \<noteq> 0"
  shows "2 powi binary_exponent x \<le> \<bar>x\<bar>"
proof -
  obtain a b where q: "quotient_of \<bar>x\<bar> = (a, b)" by (cases "quotient_of \<bar>x\<bar>")
  define n where "n = bitlen a - bitlen b"
  have b: "0 < b" using q by (rule quotient_of_denom_pos)
  have x: "\<bar>x\<bar> = of_int a / of_int b" using q by (rule quotient_of_div)
  have a: "0 < a"
  proof -
    have "0 < \<bar>x\<bar>" using assms by simp
    then have "(0::rat) < of_int a" using x b by (simp add: zero_less_divide_iff)
    then show ?thesis by simp
  qed
  have e: "binary_exponent x = (if 2 powi n \<le> \<bar>x\<bar> then n else n - 1)"
    by (simp add: binary_exponent_def q n_def Let_def)
  show ?thesis
  proof (cases "2 powi n \<le> \<bar>x\<bar>")
    case True
    with e show ?thesis by simp
  next
    case False
    have la: "1 \<le> bitlen a" using a bitlen_eq_zero_iff [of a] bitlen_nonneg [of a] by linarith
    have lb: "1 \<le> bitlen b" using b bitlen_eq_zero_iff [of b] bitlen_nonneg [of b] by linarith
    have "2 ^ nat (bitlen a - 1) \<le> a" using bitlen_bounds [OF a] by simp
    then have alow: "(2::rat) ^ nat (bitlen a - 1) \<le> of_int a"
      by (metis of_int_le_iff of_int_numeral of_int_power)
    have "b < 2 ^ nat (bitlen b)" using bitlen_bounds [OF b] by simp
    then have bup: "of_int b \<le> (2::rat) ^ nat (bitlen b)"
      by (metis less_imp_le of_int_le_iff of_int_numeral of_int_power)
    have "(2::rat) powi (n - 1) = 2 powi (bitlen a - 1) / 2 powi (bitlen b)"
      by (simp add: n_def power_int_diff [symmetric] algebra_simps)
    also have "\<dots> = 2 ^ nat (bitlen a - 1) / 2 ^ nat (bitlen b)"
      using la lb by (simp add: power_int_def)
    also have "\<dots> \<le> of_int a / of_int b"
      using alow bup b a by (intro frac_le) simp_all
    finally show ?thesis using False e x by simp
  qed
qed

lemma binary64_nonneg: "0 \<le> x \<Longrightarrow> 0 \<le> binary64 x"
proof (cases "x = 0")
  case True
  then show ?thesis by (simp add: binary64_def)
next
  case False
  assume x: "0 \<le> x"
  define ulp :: rat where "ulp = 2 powi (max (binary_exponent x) (- 1022) - 52)"
  have u: "0 < ulp" by (simp add: ulp_def)
  then have "0 \<le> x / ulp" using x by simp
  then have "0 \<le> round_half_even (x / ulp)" by (rule round_half_even_nonneg)
  then have "(0::rat) \<le> of_int (round_half_even (x / ulp)) * ulp" using u by simp
  then show ?thesis using False by (simp add: binary64_def Let_def ulp_def)
qed

lemma binary64_error:
  assumes "x = 0 \<or> min_normal \<le> \<bar>x\<bar>"
  shows "\<bar>binary64 x - x\<bar> \<le> \<bar>x\<bar> * unit_roundoff"
proof (cases "x = 0")
  case True
  then show ?thesis by (simp add: binary64_def)
next
  case False
  define e where "e = max (binary_exponent x) (- 1022)"
  define ulp :: rat where "ulp = 2 powi (e - 52)"
  have u: "0 < ulp" by (simp add: ulp_def)
  have low: "2 powi e \<le> \<bar>x\<bar>"
    using binary_exponent_le [OF False] assms False by (auto simp: e_def max_def min_normal_def)
  have b: "binary64 x = of_int (round_half_even (x / ulp)) * ulp"
    using False by (simp add: binary64_def Let_def ulp_def e_def)
  have "binary64 x - x = (of_int (round_half_even (x / ulp)) - x / ulp) * ulp"
    using u by (simp add: b left_diff_distrib)
  then have "\<bar>binary64 x - x\<bar> = \<bar>of_int (round_half_even (x / ulp)) - x / ulp\<bar> * ulp"
    using u by (simp add: abs_mult)
  also have "\<dots> \<le> (1 / 2) * ulp"
    using round_half_even_near [of "x / ulp"] u by (intro mult_right_mono) simp_all
  also have "(1 / 2) * ulp = 2 powi e * unit_roundoff"
  proof -
    have "(2::rat) powi (e - 52) = 2 powi e / 2 powi 52" by (simp add: power_int_diff)
    then show ?thesis by (simp add: ulp_def unit_roundoff_def)
  qed
  also have "\<dots> \<le> \<bar>x\<bar> * unit_roundoff"
    using low by (intro mult_right_mono) (simp_all add: unit_roundoff_def)
  finally show ?thesis .
qed


subsection \<open>The accuracy of rounded arithmetic\<close>

lemma unit_roundoff_bounds: "0 < unit_roundoff" "unit_roundoff < 1"
  by (simp_all add: unit_roundoff_def)

lemma min_normal_pos: "0 < min_normal"
  by (simp add: min_normal_def)

lemma min_normal_small: "2 * min_normal \<le> 1 / 20000"
  by code_simp

lemma roundoff_powers:
  "1 / 2 \<le> (1 - unit_roundoff) ^ 8"
  "(1 + unit_roundoff) ^ 5 \<le> 1 + 1 / 2 ^ 50"
  "1 - 1 / 2 ^ 50 \<le> (1 - unit_roundoff) ^ 5"
  by code_simp+

lemma accurate_refl: "0 \<le> x \<Longrightarrow> accurate 0 x x"
  by (simp add: accurate_def)

lemma accurate_mono:
  assumes "accurate j y x" and "j \<le> k"
  shows "accurate k y x"
proof -
  from assms(1) have x: "0 \<le> x" and lo: "x * (1 - unit_roundoff) ^ j \<le> y"
    and hi: "y \<le> x * (1 + unit_roundoff) ^ j"
    by (simp_all add: accurate_def)
  have "(1 - unit_roundoff) ^ k \<le> (1 - unit_roundoff) ^ j"
    using assms(2) unit_roundoff_bounds by (intro power_decreasing) simp_all
  then have "x * (1 - unit_roundoff) ^ k \<le> x * (1 - unit_roundoff) ^ j"
    using x by (rule mult_left_mono)
  moreover have "(1 + unit_roundoff) ^ j \<le> (1 + unit_roundoff) ^ k"
    using assms(2) unit_roundoff_bounds by (intro power_increasing) simp_all
  then have "x * (1 + unit_roundoff) ^ j \<le> x * (1 + unit_roundoff) ^ k"
    using x by (rule mult_left_mono)
  ultimately show ?thesis using x lo hi by (simp add: accurate_def)
qed

lemma accurate_add:
  assumes "accurate k y1 x1" and "accurate k y2 x2"
  shows "accurate k (y1 + y2) (x1 + x2)"
  using assms by (simp add: accurate_def distrib_right)

lemma accurate_mult:
  assumes "accurate j y1 x1" and "accurate k y2 x2"
  shows "accurate (j + k) (y1 * y2) (x1 * x2)"
proof -
  let ?d = "1 - unit_roundoff" and ?u = "1 + unit_roundoff"
  have d: "0 \<le> ?d" and u: "0 \<le> ?u" using unit_roundoff_bounds by simp_all
  from assms have x1: "0 \<le> x1" and x2: "0 \<le> x2"
    and lo1: "x1 * ?d ^ j \<le> y1" and hi1: "y1 \<le> x1 * ?u ^ j"
    and lo2: "x2 * ?d ^ k \<le> y2" and hi2: "y2 \<le> x2 * ?u ^ k"
    by (simp_all add: accurate_def)
  have l1: "0 \<le> x1 * ?d ^ j" and l2: "0 \<le> x2 * ?d ^ k" using x1 x2 d by simp_all
  have y1: "0 \<le> y1" and y2: "0 \<le> y2" using l1 l2 lo1 lo2 by linarith+
  have "(x1 * ?d ^ j) * (x2 * ?d ^ k) \<le> y1 * y2"
    using lo1 lo2 l1 l2 y1 by (intro mult_mono) simp_all
  then have lo: "(x1 * x2) * ?d ^ (j + k) \<le> y1 * y2"
    by (simp add: power_add mult_ac)
  have "y1 * y2 \<le> (x1 * ?u ^ j) * (x2 * ?u ^ k)"
    using hi1 hi2 y1 y2 x1 u by (intro mult_mono) simp_all
  then have hi: "y1 * y2 \<le> (x1 * x2) * ?u ^ (j + k)"
    by (simp add: power_add mult_ac)
  from x1 x2 lo hi show ?thesis by (simp add: accurate_def)
qed

lemma accurate_binary64:
  assumes "accurate k y x" and "k \<le> 8" and "x = 0 \<or> 2 * min_normal \<le> x"
  shows "accurate (Suc k) (binary64 y) x"
proof (cases "x = 0")
  case True
  with assms(1) have "y = 0" by (simp add: accurate_def)
  with True show ?thesis by (simp add: accurate_def binary64_def)
next
  case False
  let ?d = "1 - unit_roundoff" and ?u = "1 + unit_roundoff"
  from assms(1) have x: "0 \<le> x" and lo: "x * ?d ^ k \<le> y" and hi: "y \<le> x * ?u ^ k"
    by (simp_all add: accurate_def)
  have big: "2 * min_normal \<le> x" using assms(3) False by simp
  have "(1 / 2 :: rat) \<le> ?d ^ 8" by (rule roundoff_powers)
  also have "\<dots> \<le> ?d ^ k"
    using assms(2) unit_roundoff_bounds by (intro power_decreasing) simp_all
  finally have "x * (1 / 2) \<le> x * ?d ^ k" using x by (rule mult_left_mono)
  with big lo have ybig: "min_normal \<le> y" by simp
  with min_normal_pos have y: "0 < y" by linarith
  have "\<bar>binary64 y - y\<bar> \<le> \<bar>y\<bar> * unit_roundoff"
    using ybig y by (intro binary64_error) simp
  then have b: "y * ?d \<le> binary64 y" "binary64 y \<le> y * ?u"
    using y by (simp_all add: algebra_simps abs_le_iff)
  have "x * ?d ^ Suc k = (x * ?d ^ k) * ?d" by simp
  also have "\<dots> \<le> y * ?d" using lo unit_roundoff_bounds by (intro mult_right_mono) simp_all
  finally have l: "x * ?d ^ Suc k \<le> binary64 y" using b(1) by linarith
  have "y * ?u \<le> (x * ?u ^ k) * ?u" using hi unit_roundoff_bounds by (intro mult_right_mono) simp_all
  also have "\<dots> = x * ?u ^ Suc k" by simp
  finally have h: "binary64 y \<le> x * ?u ^ Suc k" using b(2) by linarith
  from x l h show ?thesis by (simp add: accurate_def)
qed

lemma accurate_literal:
  assumes "2 * min_normal \<le> x"
  shows "accurate 1 (binary64 x) x"
proof -
  from min_normal_pos assms have "0 \<le> x" by linarith
  then have "accurate 0 x x" by (rule accurate_refl)
  then have "accurate (Suc 0) (binary64 x) x" using assms by (intro accurate_binary64) simp_all
  then show ?thesis by simp
qed

lemma accurate_int:
  assumes "0 \<le> n"
  shows "accurate 1 (binary64 (of_int n)) (of_int n)"
proof -
  have "accurate 0 (of_int n :: rat) (of_int n)" using assms by (intro accurate_refl) simp
  moreover have "(of_int n :: rat) = 0 \<or> 2 * min_normal \<le> (of_int n :: rat)"
  proof (cases "n = 0")
    case True
    then show ?thesis by simp
  next
    case False
    with assms have "1 \<le> n" by simp
    then have "(1::rat) \<le> of_int n" by simp
    with min_normal_small show ?thesis by simp
  qed
  ultimately have "accurate (Suc 0) (binary64 (of_int n)) (of_int n)"
    by (intro accurate_binary64) simp_all
  then show ?thesis by simp
qed

lemma accurate_product:
  assumes "0 \<le> n" and "2 * min_normal \<le> x"
  shows "accurate 3 (binary64 (binary64 (of_int n) * binary64 x)) (of_int n * x)"
    and "of_int n * x = 0 \<or> 2 * min_normal \<le> of_int n * x"
proof -
  have xpos: "0 < x" using min_normal_pos assms(2) by linarith
  show side: "of_int n * x = 0 \<or> 2 * min_normal \<le> of_int n * x"
  proof (cases "n = 0")
    case True
    then show ?thesis by simp
  next
    case False
    with assms(1) have "(1::rat) \<le> of_int n" by simp
    then have "1 * x \<le> of_int n * x" using xpos by (intro mult_right_mono) simp_all
    with assms(2) show ?thesis by simp
  qed
  have "accurate (1 + 1) (binary64 (of_int n) * binary64 x) (of_int n * x)"
    using accurate_int [OF assms(1)] accurate_literal [OF assms(2)] by (rule accurate_mult)
  then have "accurate 2 (binary64 (of_int n) * binary64 x) (of_int n * x)"
    by (simp add: numeral_2_eq_2)
  then have "accurate (Suc 2) (binary64 (binary64 (of_int n) * binary64 x)) (of_int n * x)"
    using side by (intro accurate_binary64) simp_all
  then show "accurate 3 (binary64 (binary64 (of_int n) * binary64 x)) (of_int n * x)"
    by (simp add: numeral_3_eq_3)
qed

lemma accurate_5_error:
  assumes "accurate 5 y x"
  shows "\<bar>y - x\<bar> \<le> x / 2 ^ 50"
proof -
  let ?d = "1 - unit_roundoff" and ?u = "1 + unit_roundoff"
  from assms have x: "0 \<le> x" and lo: "x * ?d ^ 5 \<le> y" and hi: "y \<le> x * ?u ^ 5"
    by (simp_all add: accurate_def)
  have "?u ^ 5 \<le> 1 + 1 / 2 ^ 50" by (rule roundoff_powers)
  then have "x * ?u ^ 5 \<le> x * (1 + 1 / 2 ^ 50)" using x by (rule mult_left_mono)
  then have h: "y - x \<le> x / 2 ^ 50" using hi by (simp add: algebra_simps)
  have "1 - 1 / 2 ^ 50 \<le> ?d ^ 5" by (rule roundoff_powers)
  then have "x * (1 - 1 / 2 ^ 50) \<le> x * ?d ^ 5" using x by (rule mult_left_mono)
  then have l: "x - y \<le> x / 2 ^ 50" using lo by (simp add: algebra_simps)
  from h l show ?thesis unfolding abs_le_iff by linarith
qed


subsection \<open>The model energy table\<close>

lemma model_profiles_table:
  "model_profiles =
     [(''claude-3-5-sonnet-20241022'', claude_3_5_sonnet_base),
      (''claude-3-5-sonnet-20240620'', claude_3_5_sonnet_base),
      (''claude-3-5-sonnet'', claude_3_5_sonnet_base),
      (''claude-3-sonnet-20240229'', claude_3_5_sonnet_base),
      (''claude-3-haiku-20240307'',
         \<lparr>name = ''claude-3-haiku-20240307'', energy_per_input_token = 0.00005,
          energy_per_output_token = 0.00015, base_energy = 0.005,
          source = ''ecologits_estimate''\<rparr>),
      (''claude-3-opus-20240229'',
         \<lparr>name = ''claude-3-opus-20240229'', energy_per_input_token = 0.0002,
          energy_per_output_token = 0.0005, base_energy = 0.02,
          source = ''ecologits_estimate''\<rparr>)]"
  by code_simp

lemma known_profile_bounds:
  assumes "dict_get model_profiles model = Some p"
  shows "1 / 20000 \<le> energy_per_input_token p \<and> 1 / 20000 \<le> energy_per_output_token p \<and>
         1 / 20000 \<le> base_energy p"
proof -
  from assms have "(model, p) \<in> set model_profiles"
    unfolding dict_get_def by (rule map_of_SomeD)
  then show ?thesis
    unfolding model_profiles_table claude_3_5_sonnet_base_def by auto
qed

lemma get_model_profile_known:
  "dict_get model_profiles model = Some p \<Longrightarrow> get_model_profile model = p"
  by (simp add: get_model_profile_def)

lemma int_times_float_in_range:
  "\<bar>n\<bar> < float_int_bound \<Longrightarrow>
   int_times_float n x = Inr (binary64 (binary64 (of_int n) * binary64 x))"
  by (simp add: int_times_float_def float_of_int_def)

lemma calculate_energy_in_range:
  assumes "\<bar>i\<bar> < float_int_bound" and "\<bar>j\<bar> < float_int_bound"
  shows "calculate_energy_consumption m i j =
           Inr (binary64
             (binary64
                (binary64 (binary64 (of_int i) *
                           binary64 (energy_per_input_token (get_model_profile m))) +
                 binary64 (binary64 (of_int j) *
                           binary64 (energy_per_output_token (get_model_profile m)))) +
              binary64 (base_energy (get_model_profile m))))"
  using assms by (simp add: calculate_energy_consumption_def int_times_float_in_range Let_def)

text \<open>
  Claim C1, amended. For a model id that is a key of the profile table and token counts that
  are non-negative and below the bound of the conversion to \<^verbatim>\<open>float\<close> (every validated count,
  being at most 1,000,000, is), the energy calculation returns the value of
  \<open>input_tokens * energy_per_input_token + output_tokens * energy_per_output_token +
  base_energy\<close> in binary64 arithmetic, where the counts, the three constants, the two products
  and the two sums are each rounded to the nearest double. This value is not negative, and it
  differs from the exact value of the formula by at most the fraction \<open>2^-50\<close> of it.
\<close>

theorem energy_formula_known_model:
  assumes "dict_get model_profiles model = Some profile"
    and "0 \<le> input_tokens" and "input_tokens < float_int_bound"
    and "0 \<le> output_tokens" and "output_tokens < float_int_bound"
  shows "\<exists>energy.
           calculate_energy_consumption model input_tokens output_tokens = Inr energy \<and>
           energy =
             binary64
               (binary64
                  (binary64 (binary64 (of_int input_tokens) *
                             binary64 (energy_per_input_token profile)) +
                   binary64 (binary64 (of_int output_tokens) *
                             binary64 (energy_per_output_token profile))) +
                binary64 (base_energy profile)) \<and>
           0 \<le> energy \<and>
           \<bar>energy - energy_formula profile input_tokens output_tokens\<bar> \<le>
             energy_formula profile input_tokens output_tokens / 2 ^ 50"
proof -
  let ?a = "energy_per_input_token profile"
  let ?b = "energy_per_output_token profile"
  let ?c = "base_energy profile"
  let ?P = "binary64 (binary64 (of_int input_tokens) * binary64 ?a)"
  let ?Q = "binary64 (binary64 (of_int output_tokens) * binary64 ?b)"
  let ?S = "binary64 (?P + ?Q)"
  let ?R = "binary64 (?S + binary64 ?c)"
  let ?A = "of_int input_tokens * ?a" and ?B = "of_int output_tokens * ?b"
  from known_profile_bounds [OF assms(1)] min_normal_small
  have a: "2 * min_normal \<le> ?a" and b: "2 * min_normal \<le> ?b" and c: "2 * min_normal \<le> ?c"
    by linarith+
  have r: "\<bar>input_tokens\<bar> < float_int_bound" "\<bar>output_tokens\<bar> < float_int_bound"
    using assms by simp_all
  have eq: "calculate_energy_consumption model input_tokens output_tokens = Inr ?R"
    using calculate_energy_in_range [OF r, of model] get_model_profile_known [OF assms(1)]
    by simp
  note p = accurate_product [OF assms(2) a]
  note q = accurate_product [OF assms(4) b]
  have "accurate 3 (?P + ?Q) (?A + ?B)" using p(1) q(1) by (rule accurate_add)
  moreover have "?A + ?B = 0 \<or> 2 * min_normal \<le> ?A + ?B"
  proof -
    have "0 \<le> ?A" "0 \<le> ?B" using p(1) q(1) by (simp_all add: accurate_def)
    with p(2) q(2) show ?thesis by linarith
  qed
  ultimately have "accurate (Suc 3) ?S (?A + ?B)" by (intro accurate_binary64) simp_all
  then have s: "accurate 4 ?S (?A + ?B)" by (simp add: eval_nat_numeral)
  have "accurate 4 (binary64 ?c) ?c"
    using accurate_literal [OF c] by (rule accurate_mono) simp
  with s have "accurate 4 (?S + binary64 ?c) (?A + ?B + ?c)" by (rule accurate_add)
  moreover have "2 * min_normal \<le> ?A + ?B + ?c"
  proof -
    have "0 \<le> ?A + ?B" using s by (simp add: accurate_def)
    with c show ?thesis by linarith
  qed
  ultimately have "accurate (Suc 4) ?R (?A + ?B + ?c)" by (intro accurate_binary64) simp_all
  then have acc: "accurate 5 ?R (energy_formula profile input_tokens output_tokens)"
    by (simp add: eval_nat_numeral energy_formula_def)
  then have err: "\<bar>?R - energy_formula profile input_tokens output_tokens\<bar> \<le>
      energy_formula profile input_tokens output_tokens / 2 ^ 50"
    by (rule accurate_5_error)
  have "0 \<le> ?S + binary64 ?c"
  proof -
    have "0 \<le> ?A + ?B + ?c" "(?A + ?B + ?c) * (1 - unit_roundoff) ^ 4 \<le> ?S + binary64 ?c"
      using \<open>accurate 4 (?S + binary64 ?c) (?A + ?B + ?c)\<close> by (simp_all add: accurate_def)
    moreover have "0 \<le> (1 - unit_roundoff) ^ 4" using unit_roundoff_bounds by simp
    ultimately show ?thesis by (meson mult_nonneg_nonneg order_trans)
  qed
  then have "0 \<le> ?R" by (rule binary64_nonneg)
  with eq err show ?thesis by blast
qed

theorem energy_formula_known_model_witness:
  "dict_get model_profiles ''claude-3-5-sonnet-20241022'' = Some claude_3_5_sonnet_base \<and>
   (0::int) \<le> 150 \<and> 150 < float_int_bound \<and> (0::int) \<le> 500 \<and> 500 < float_int_bound \<and>
   calculate_energy_consumption ''claude-3-5-sonnet-20241022'' 150 500 =
     Inr (6305039478318695 / 36028797018963968) \<and>
   \<bar>6305039478318695 / 36028797018963968 - energy_formula claude_3_5_sonnet_base 150 500\<bar> \<le>
     energy_formula claude_3_5_sonnet_base 150 500 / 2 ^ 50"
proof -
  have p: "dict_get model_profiles ''claude-3-5-sonnet-20241022'' = Some claude_3_5_sonnet_base"
    by (simp add: model_profiles_table dict_get_def)
  have b: "(150::int) < float_int_bound" "(500::int) < float_int_bound"
    by (simp_all add: float_int_bound_def)
  have v: "calculate_energy_consumption ''claude-3-5-sonnet-20241022'' 150 500 =
     Inr (6305039478318695 / 36028797018963968)"
    by code_simp
  have z: "(0::int) \<le> 150" "(0::int) \<le> 500" by simp_all
  from energy_formula_known_model [OF p z(1) b(1) z(2) b(2)]
  obtain energy where
    e: "calculate_energy_consumption ''claude-3-5-sonnet-20241022'' 150 500 = Inr energy"
    and err: "\<bar>energy - energy_formula claude_3_5_sonnet_base 150 500\<bar> \<le>
      energy_formula claude_3_5_sonnet_base 150 500 / 2 ^ 50"
    by blast
  from e v have "energy = 6305039478318695 / 36028797018963968" by simp
  with err have "\<bar>6305039478318695 / 36028797018963968 -
      energy_formula claude_3_5_sonnet_base 150 500\<bar> \<le>
     energy_formula claude_3_5_sonnet_base 150 500 / 2 ^ 50"
    by (simp only:)
  with p z b v show ?thesis by (simp only: simp_thms)
qed

text \<open>
  Claim C1 as stated fails in two ways. On the example of the specification, 150 input and
  500 output tokens, the code returns the double \<open>6305039478318695 / 2^55\<close>, which Python
  prints as 0.17500000000000002, and not the value 0.175 of the formula. And with \<open>2^1024\<close>
  input tokens the conversion to \<^verbatim>\<open>float\<close> raises in the \<^verbatim>\<open>try\<close> block and again in the fallback
  calculation, so that the call raises \<^verbatim>\<open>OverflowError\<close> and returns nothing.
\<close>

theorem energy_not_exact_counterexample:
  "dict_get model_profiles ''claude-3-5-sonnet-20241022'' = Some claude_3_5_sonnet_base \<and>
   calculate_energy_consumption ''claude-3-5-sonnet-20241022'' 150 500 =
     Inr (6305039478318695 / 2 ^ 55) \<and>
   energy_formula claude_3_5_sonnet_base 150 500 = 0.175 \<and>
   (6305039478318695 / 2 ^ 55 :: rat) \<noteq> 0.175 \<and>
   (0::int) \<le> 2 ^ 1024 \<and>
   calculate_energy_consumption ''claude-3-5-sonnet-20241022'' (2 ^ 1024) 0 =
     Inl (OverflowError ''int too large to convert to float'')"
proof -
  have p: "dict_get model_profiles ''claude-3-5-sonnet-20241022'' = Some claude_3_5_sonnet_base"
    by (simp add: model_profiles_table dict_get_def)
  have v: "calculate_energy_consumption ''claude-3-5-sonnet-20241022'' 150 500 =
     Inr (6305039478318695 / 2 ^ 55)"
    by code_simp
  have f: "energy_formula claude_3_5_sonnet_base 150 500 = 0.175"
    by (simp add: energy_formula_def claude_3_5_sonnet_base_def)
  have n: "(6305039478318695 / 2 ^ 55 :: rat) \<noteq> 0.175" by simp
  have "\<not> \<bar>2 ^ 1024 :: int\<bar> < float_int_bound" by (simp add: float_int_bound_def)
  then have "int_times_float (2 ^ 1024) x = Inl (OverflowError ''int too large to convert to float'')" for x
    by (simp add: int_times_float_def float_of_int_def)
  then have o: "calculate_energy_consumption ''claude-3-5-sonnet-20241022'' (2 ^ 1024) 0 =
     Inl (OverflowError ''int too large to convert to float'')"
    by (simp add: calculate_energy_consumption_def fallback_energy_calculation_def)
  from p v f n o show ?thesis by simp
qed


subsection \<open>Profile resolution\<close>

lemma startswith_iff: "startswith s p \<longleftrightarrow> (\<exists>post. s = p @ post)"
proof
  assume "startswith s p"
  then have "s = p @ drop (length p) s"
    unfolding startswith_def by (metis append_take_drop_id)
  then show "\<exists>post. s = p @ post" ..
next
  assume "\<exists>post. s = p @ post"
  then show "startswith s p" by (auto simp: startswith_def)
qed

lemma str_in_iff: "str_in p s \<longleftrightarrow> (\<exists>pre post. s = pre @ p @ post)"
proof (induction s)
  case Nil
  then show ?case by simp
next
  case (Cons c s)
  show ?case
  proof
    assume "str_in p (c # s)"
    then consider "startswith (c # s) p" | "str_in p s" by auto
    then show "\<exists>pre post. c # s = pre @ p @ post"
    proof cases
      case 1
      then obtain post where "c # s = p @ post" by (auto simp: startswith_iff)
      then have "c # s = [] @ p @ post" by simp
      then show ?thesis by blast
    next
      case 2
      with Cons.IH obtain pre post where "s = pre @ p @ post" by blast
      then have "c # s = (c # pre) @ p @ post" by simp
      then show ?thesis by blast
    qed
  next
    assume "\<exists>pre post. c # s = pre @ p @ post"
    then obtain pre post where eq: "c # s = pre @ p @ post" by blast
    show "str_in p (c # s)"
    proof (cases pre)
      case Nil
      with eq have "startswith (c # s) p" by (auto simp: startswith_iff)
      then show ?thesis by simp
    next
      case (Cons d pre')
      with eq have "s = pre' @ p @ post" by simp
      with Cons.IH have "str_in p s" by blast
      then show ?thesis by simp
    qed
  qed
qed

lemma fuzzy_match_find:
  "fuzzy_match (lower model) d =
     map_option snd (find (\<lambda>(n, p). fuzzy_matches model n) d)"
proof (induction d)
  case Nil
  then show ?case by simp
next
  case (Cons a d)
  then show ?case by (cases a) (simp add: fuzzy_matches_def)
qed

lemma get_model_profile_resolve: "get_model_profile model = resolve_profile model"
  by (auto simp: get_model_profile_def resolve_profile_def dict_get_def fuzzy_match_find Let_def
      split: option.splits)

text \<open>
  Claim C3, amended. Profile resolution follows the order of the specification, first match
  wins: the exact entry, then the first entry of the table whose name matches the id fuzzily,
  then the family named in the lower-cased id, then the default. For a model id with no exact
  and no fuzzy match, the resolved constants are those of the haiku fallback when the
  lower-cased id contains \<^verbatim>\<open>haiku\<close>, of the opus fallback when it contains \<^verbatim>\<open>opus\<close>, and
  \<open>(0.0001, 0.0003, 0.01)\<close>, shared by the sonnet and the default fallback, otherwise.
\<close>

theorem profile_resolution_order:
  "get_model_profile model = resolve_profile model \<and>
   (map_of model_profiles model = None \<and>
    find (\<lambda>(n, p). fuzzy_matches model n) model_profiles = None \<longrightarrow>
      profile_constants (get_model_profile model) =
        (if str_in ''haiku'' (lower model) then (0.00005, 0.00015, 0.005)
         else if str_in ''opus'' (lower model) then (0.0002, 0.0005, 0.02)
         else (0.0001, 0.0003, 0.01)))"
proof (intro conjI impI)
  show "get_model_profile model = resolve_profile model" by (rule get_model_profile_resolve)
next
  assume "map_of model_profiles model = None \<and>
    find (\<lambda>(n, p). fuzzy_matches model n) model_profiles = None"
  then show "profile_constants (get_model_profile model) =
        (if str_in ''haiku'' (lower model) then (0.00005, 0.00015, 0.005)
         else if str_in ''opus'' (lower model) then (0.0002, 0.0005, 0.02)
         else (0.0001, 0.0003, 0.01))"
    by (simp add: get_model_profile_resolve resolve_profile_def profile_constants_def
        get_haiku_profile_def get_opus_profile_def get_sonnet_profile_def get_default_profile_def)
qed

theorem profile_resolution_order_witness:
  "map_of model_profiles ''My-Haiku-v9'' = None \<and>
   find (\<lambda>(n, p). fuzzy_matches ''My-Haiku-v9'' n) model_profiles = None \<and>
   profile_constants (get_model_profile ''My-Haiku-v9'') = (0.00005, 0.00015, 0.005) \<and>
   map_of model_profiles ''gpt-4-opus'' = None \<and>
   find (\<lambda>(n, p). fuzzy_matches ''gpt-4-opus'' n) model_profiles = None \<and>
   profile_constants (get_model_profile ''gpt-4-opus'') = (0.0002, 0.0005, 0.02) \<and>
   map_of model_profiles ''gpt-4'' = None \<and>
   find (\<lambda>(n, p). fuzzy_matches ''gpt-4'' n) model_profiles = None \<and>
   profile_constants (get_model_profile ''gpt-4'') = (0.0001, 0.0003, 0.01)"
proof -
  have h: "map_of model_profiles ''My-Haiku-v9'' = None"
    "find (\<lambda>(n, p). fuzzy_matches ''My-Haiku-v9'' n) model_profiles = None"
    "str_in ''haiku'' (lower ''My-Haiku-v9'')"
    by code_simp+
  have o: "map_of model_profiles ''gpt-4-opus'' = None"
    "find (\<lambda>(n, p). fuzzy_matches ''gpt-4-opus'' n) model_profiles = None"
    "\<not> str_in ''haiku'' (lower ''gpt-4-opus'')" "str_in ''opus'' (lower ''gpt-4-opus'')"
    by code_simp+
  have g: "map_of model_profiles ''gpt-4'' = None"
    "find (\<lambda>(n, p). fuzzy_matches ''gpt-4'' n) model_profiles = None"
    "\<not> str_in ''haiku'' (lower ''gpt-4'')" "\<not> str_in ''opus'' (lower ''gpt-4'')"
    by code_simp+
  from profile_resolution_order [of "''My-Haiku-v9''", THEN conjunct2] h
  have 1: "profile_constants (get_model_profile ''My-Haiku-v9'') = (0.00005, 0.00015, 0.005)"
    by simp
  from profile_resolution_order [of "''gpt-4-opus''", THEN conjunct2] o
  have 2: "profile_constants (get_model_profile ''gpt-4-opus'') = (0.0002, 0.0005, 0.02)"
    by simp
  from profile_resolution_order [of "''gpt-4''", THEN conjunct2] g
  have 3: "profile_constants (get_model_profile ''gpt-4'') = (0.0001, 0.0003, 0.01)"
    by simp
  from h o g 1 2 3 show ?thesis by simp
qed

text \<open>
  Claim C3 as stated fails for ids that are not in the table but match an entry fuzzily:
  \<^verbatim>\<open>h\<close> contains neither \<^verbatim>\<open>haiku\<close> nor \<^verbatim>\<open>opus\<close>, occurs in \<^verbatim>\<open>claude-3-haiku-20240307\<close> and
  resolves to the haiku constants, not the default ones; \<^verbatim>\<open>claude-3-5-sonnet-haiku\<close> contains
  \<^verbatim>\<open>haiku\<close>, contains the name \<^verbatim>\<open>claude-3-5-sonnet\<close> and resolves to the sonnet constants.
\<close>

theorem unknown_model_family_counterexample:
  "dict_get model_profiles ''h'' = None \<and>
   \<not> str_in ''haiku'' (lower ''h'') \<and> \<not> str_in ''opus'' (lower ''h'') \<and>
   profile_constants (get_model_profile ''h'') = (0.00005, 0.00015, 0.005) \<and>
   profile_constants get_default_profile = (0.0001, 0.0003, 0.01) \<and>
   dict_get model_profiles ''claude-3-5-sonnet-haiku'' = None \<and>
   str_in ''haiku'' ''claude-3-5-sonnet-haiku'' \<and>
   profile_constants (get_model_profile ''claude-3-5-sonnet-haiku'') = (0.0001, 0.0003, 0.01) \<and>
   profile_constants get_haiku_profile = (0.00005, 0.00015, 0.005)"
  by code_simp


subsection \<open>The request validator\<close>

lemma check_required_fields:
  "check_required required_fields data =
     (if field_missing ''model'' data then Some ''Missing required field: model''
      else if field_missing ''input_tokens'' data then Some ''Missing required field: input_tokens''
      else if field_missing ''output_tokens'' data then Some ''Missing required field: output_tokens''
      else None)"
  by (simp add: required_fields_def field_missing_def)

lemma not_nonblank_str_iff: "not_nonblank_str v \<longleftrightarrow> \<not> is_str v \<or> length (strip (str_value v)) = 0"
  by (cases v) (simp_all add: not_nonblank_str_def)

lemma not_nonneg_int_iff: "not_nonneg_int v \<longleftrightarrow> \<not> is_int v \<or> int_value v < 0"
  by (cases v) (simp_all add: not_nonneg_int_def)

lemma over_limit_iff: "over_limit v \<longleftrightarrow> int_value v > 1000000"
  by (cases v) (simp_all add: over_limit_def)

lemma find_rule_Cons:
  "map_option snd (find (\<lambda>(violated, msg). violated data) ((v, m) # rules)) =
     (if v data then Some m else map_option snd (find (\<lambda>(violated, msg). violated data) rules))"
  by simp

lemma first_violation_rules:
  "first_violation (validation_rules isofmt) data =
     (if field_missing ''model'' data then Some ''Missing required field: model''
      else if field_missing ''input_tokens'' data then Some ''Missing required field: input_tokens''
      else if field_missing ''output_tokens'' data then Some ''Missing required field: output_tokens''
      else if not_nonblank_str (dict_item data ''model'') then Some ''Model must be a non-empty string''
      else if not_nonneg_int (dict_item data ''input_tokens'')
        then Some ''input_tokens must be a non-negative integer''
      else if not_nonneg_int (dict_item data ''output_tokens'')
        then Some ''output_tokens must be a non-negative integer''
      else if over_limit (dict_item data ''input_tokens'')
        then Some ''input_tokens exceeds reasonable limit (1M)''
      else if over_limit (dict_item data ''output_tokens'')
        then Some ''output_tokens exceeds reasonable limit (1M)''
      else if present_truthy ''timestamp'' (\<lambda>v. \<not> is_str v) data
        then Some ''timestamp must be a string in ISO format''
      else if present_truthy ''timestamp'' (\<lambda>v. \<not> isofmt (replace_Z (str_value v))) data
        then Some ''timestamp must be a valid ISO format string''
      else if present_truthy ''location'' not_nonblank_str data
        then Some ''location must be a non-empty string''
      else None)"
  unfolding first_violation_def validation_rules_def find_rule_Cons by simp

lemma validate_location_field_rule:
  "validate_location_field data =
     (if present_truthy ''location'' not_nonblank_str data
      then Some ''location must be a non-empty string'' else None)"
  by (simp add: validate_location_field_def present_truthy_def not_nonblank_str_iff
      split: option.splits)

lemma validate_timestamp_field_rule:
  "validate_timestamp_field isofmt data =
     (if present_truthy ''timestamp'' (\<lambda>v. \<not> is_str v) data
      then Some ''timestamp must be a string in ISO format''
      else if present_truthy ''timestamp'' (\<lambda>v. \<not> isofmt (replace_Z (str_value v))) data
      then Some ''timestamp must be a valid ISO format string''
      else validate_location_field data)"
  by (simp add: validate_timestamp_field_def present_truthy_def split: option.splits)

lemma validate_request_data_unfolded:
  "validate_request_data isofmt data =
     (if field_missing ''model'' data then Some ''Missing required field: model''
      else if field_missing ''input_tokens'' data then Some ''Missing required field: input_tokens''
      else if field_missing ''output_tokens'' data then Some ''Missing required field: output_tokens''
      else if not_nonblank_str (dict_item data ''model'') then Some ''Model must be a non-empty string''
      else if not_nonneg_int (dict_item data ''input_tokens'')
        then Some ''input_tokens must be a non-negative integer''
      else if not_nonneg_int (dict_item data ''output_tokens'')
        then Some ''output_tokens must be a non-negative integer''
      else if over_limit (dict_item data ''input_tokens'')
        then Some ''input_tokens exceeds reasonable limit (1M)''
      else if over_limit (dict_item data ''output_tokens'')
        then Some ''output_tokens exceeds reasonable limit (1M)''
      else validate_timestamp_field isofmt data)"
  unfolding validate_request_data_def check_required_fields Let_def
    not_nonblank_str_iff not_nonneg_int_iff over_limit_iff
  by (simp only: if_distrib [of "case_option _ _"] option.case if_True if_False cong: if_cong)

lemma validate_request_data_rules:
  "validate_request_data isofmt data = first_violation (validation_rules isofmt) data"
  unfolding validate_request_data_unfolded first_violation_rules
    validate_timestamp_field_rule validate_location_field_rule ..

lemma validation_messages_distinct: "distinct (map snd (validation_rules isofmt))"
  by (simp add: validation_rules_def)


text \<open>
  Claim C5, amended. The validator returns the message of the first rule, in the order of
  \<open>validation_rules\<close>, that the record violates, and nothing when it violates none; the
  eleven messages are distinct. The rules: a required field is missing; the model is not a
  string or is blank (empty once Python's white space is stripped); a token count is not a
  non-negative \<^verbatim>\<open>int\<close> (a boolean counts as 1 or
  0); a token count is above 1,000,000; a timestamp that is present and not falsy is not a
  string, or does not parse once every \<^verbatim>\<open>Z\<close> is replaced by \<^verbatim>\<open>+00:00\<close>; a location that is
  present and not falsy is not a string or is blank.
\<close>

theorem validator_first_violation:
  "validate_request_data isofmt data = first_violation (validation_rules isofmt) data \<and>
   distinct (map snd (validation_rules isofmt))"
  using validate_request_data_rules validation_messages_distinct by blast

theorem validator_first_violation_witness:
  "validate_request_data example_fromisoformat
     [(''model'', PStr []), (''input_tokens'', PInt (- 1)),
      (''output_tokens'', PStr ''not_a_number'')] = Some ''Model must be a non-empty string'' \<and>
   validate_request_data example_fromisoformat
     [(''model'', PStr ''claude-3-5-sonnet-20241022''), (''input_tokens'', PInt 150),
      (''output_tokens'', PInt 1000001), (''timestamp'', PStr ''yesterday'')] =
     Some ''output_tokens exceeds reasonable limit (1M)'' \<and>
   validate_request_data example_fromisoformat
     [(''model'', PStr ''claude-3-5-sonnet-20241022''), (''input_tokens'', PInt 150),
      (''output_tokens'', PInt 500), (''timestamp'', PStr ''2025-06-25T10:30:00Z''),
      (''location'', PStr ''us-west-1'')] = None \<and>
   validate_request_data example_fromisoformat
     [(''model'', PStr [CHR 0xA0]), (''input_tokens'', PInt 1), (''output_tokens'', PInt 1)] =
     Some ''Model must be a non-empty string''"
proof -
  have "first_violation (validation_rules example_fromisoformat)
     [(''model'', PStr []), (''input_tokens'', PInt (- 1)),
      (''output_tokens'', PStr ''not_a_number'')] = Some ''Model must be a non-empty string''"
    by code_simp
  moreover have "first_violation (validation_rules example_fromisoformat)
     [(''model'', PStr ''claude-3-5-sonnet-20241022''), (''input_tokens'', PInt 150),
      (''output_tokens'', PInt 1000001), (''timestamp'', PStr ''yesterday'')] =
     Some ''output_tokens exceeds reasonable limit (1M)''"
    by code_simp
  moreover have "first_violation (validation_rules example_fromisoformat)
     [(''model'', PStr ''claude-3-5-sonnet-20241022''), (''input_tokens'', PInt 150),
      (''output_tokens'', PInt 500), (''timestamp'', PStr ''2025-06-25T10:30:00Z''),
      (''location'', PStr ''us-west-1'')] = None"
    by code_simp
  moreover have "first_violation (validation_rules example_fromisoformat)
     [(''model'', PStr [CHR 0xA0]), (''input_tokens'', PInt 1), (''output_tokens'', PInt 1)] =
     Some ''Model must be a non-empty string''"
    by code_simp
  ultimately show ?thesis
    by (simp only: validator_first_violation [THEN conjunct1])
qed

text \<open>
  Claim C5 as stated fails on optional fields that are present but falsy, which the guards
  \<^verbatim>\<open>if timestamp and ...\<close> and \<^verbatim>\<open>if location and ...\<close> skip, and on boolean token counts: an
  empty timestamp, which does not parse, an empty location, a \<^verbatim>\<open>null\<close> location and the token
  count \<^verbatim>\<open>true\<close> are all accepted.
\<close>

theorem validator_falsy_fields_counterexample:
  "\<not> example_fromisoformat (replace_Z []) \<and>
   validate_request_data example_fromisoformat
     [(''model'', PStr ''claude-3-5-sonnet-20241022''), (''input_tokens'', PInt 150),
      (''output_tokens'', PInt 500), (''timestamp'', PStr [])] = None \<and>
   validate_request_data example_fromisoformat
     [(''model'', PStr ''claude-3-5-sonnet-20241022''), (''input_tokens'', PInt 150),
      (''output_tokens'', PInt 500), (''location'', PStr [])] = None \<and>
   validate_request_data example_fromisoformat
     [(''model'', PStr ''claude-3-5-sonnet-20241022''), (''input_tokens'', PInt 150),
      (''output_tokens'', PInt 500), (''location'', PNone)] = None \<and>
   validate_request_data example_fromisoformat
     [(''model'', PStr ''claude-3-5-sonnet-20241022''), (''input_tokens'', PBool True),
      (''output_tokens'', PInt 500)] = None"
  by code_simp


subsection \<open>The formatter\<close>

lemma py_round_rounded: "rounded_to n x (py_round x n)"
proof -
  let ?p = "(10::rat) ^ n"
  let ?k = "round_half_even (x * ?p)"
  have p: "0 < ?p" by simp
  have "py_round x n - x = (of_int ?k - x * ?p) / ?p"
    by (simp add: py_round_def diff_divide_distrib)
  then have "\<bar>py_round x n - x\<bar> = \<bar>of_int ?k - x * ?p\<bar> / ?p"
    by (simp add: abs_divide)
  also have "\<dots> \<le> (1 / 2) / ?p"
    by (rule divide_right_mono [OF round_half_even_near]) simp
  finally have "\<bar>py_round x n - x\<bar> \<le> 1 / (2 * ?p)" by simp
  moreover have "\<exists>k::int. py_round x n = of_int k / ?p" by (auto simp: py_round_def)
  ultimately show ?thesis by (simp add: rounded_to_def)
qed






text \<open>
  Claim C9. The rounded fields, the equivalent text and the additional equivalents of a
  formatted result depend on the four quantities only: two invocations on the same four
  quantities agree on all of them, whatever the clock and the context fields are; and when
  the data are the same and carry a timestamp, the two results are equal altogether.
\<close>

theorem formatter_deterministic:
  assumes "data_energy_wh d1 = data_energy_wh d2"
    and "data_co2_emissions_g d1 = data_co2_emissions_g d2"
    and "data_carbon_intensity_g_kwh d1 = data_carbon_intensity_g_kwh d2"
    and "data_tree_equivalent d1 = data_tree_equivalent d2"
  shows "energy_wh (format_environmental_response now1 d1) =
           energy_wh (format_environmental_response now2 d2) \<and>
         co2_emissions_g (format_environmental_response now1 d1) =
           co2_emissions_g (format_environmental_response now2 d2) \<and>
         carbon_intensity_g_kwh (format_environmental_response now1 d1) =
           carbon_intensity_g_kwh (format_environmental_response now2 d2) \<and>
         tree_equivalent (format_environmental_response now1 d1) =
           tree_equivalent (format_environmental_response now2 d2) \<and>
         equivalent_text (format_environmental_response now1 d1) =
           equivalent_text (format_environmental_response now2 d2) \<and>
         additional_equivalents (format_environmental_response now1 d1) =
           additional_equivalents (format_environmental_response now2 d2) \<and>
         (d1 = d2 \<and> data_timestamp d1 \<noteq> None \<longrightarrow>
            format_environmental_response now1 d1 = format_environmental_response now2 d2)"
  using assms by (auto simp: format_environmental_response_def Let_def get_or_def)

theorem formatter_deterministic_witness:
  "data_energy_wh example_impact_data =
     data_energy_wh (example_impact_data\<lparr>data_source := None\<rparr>) \<and>
   data_co2_emissions_g example_impact_data =
     data_co2_emissions_g (example_impact_data\<lparr>data_source := None\<rparr>) \<and>
   data_carbon_intensity_g_kwh example_impact_data =
     data_carbon_intensity_g_kwh (example_impact_data\<lparr>data_source := None\<rparr>) \<and>
   data_tree_equivalent example_impact_data =
     data_tree_equivalent (example_impact_data\<lparr>data_source := None\<rparr>) \<and>
   equivalent_text (format_environmental_response ''2025-06-25T10:30:00'' example_impact_data) =
     ''less than 1% of what a tree absorbs daily'' \<and>
   equivalent_text (format_environmental_response ''2026-01-01T00:00:00''
       (example_impact_data\<lparr>data_source := None\<rparr>)) =
     ''less than 1% of what a tree absorbs daily''"
proof -
  have t: "equivalent_text
      (format_environmental_response ''2025-06-25T10:30:00'' example_impact_data) =
     ''less than 1% of what a tree absorbs daily''"
    by code_simp
  have "equivalent_text (format_environmental_response ''2025-06-25T10:30:00'' example_impact_data) =
     equivalent_text (format_environmental_response ''2026-01-01T00:00:00''
       (example_impact_data\<lparr>data_source := None\<rparr>))"
    using formatter_deterministic [of example_impact_data
        "example_impact_data\<lparr>data_source := None\<rparr>"
        "''2025-06-25T10:30:00''" "''2026-01-01T00:00:00''"]
    by simp
  with t show ?thesis by simp
qed


subsection \<open>The handler of one request\<close>

lemma validated_fields:
  assumes "validate_request_data isofmt data = None"
  shows "data \<noteq> []"
    and "0 \<le> int_value (dict_item data ''input_tokens'')"
    and "int_value (dict_item data ''input_tokens'') \<le> 1000000"
    and "0 \<le> int_value (dict_item data ''output_tokens'')"
    and "int_value (dict_item data ''output_tokens'') \<le> 1000000"
proof -
  from assms have v: "\<not> field_missing ''model'' data"
    "\<not> not_nonneg_int (dict_item data ''input_tokens'')"
    "\<not> not_nonneg_int (dict_item data ''output_tokens'')"
    "\<not> over_limit (dict_item data ''input_tokens'')"
    "\<not> over_limit (dict_item data ''output_tokens'')"
    unfolding validate_request_data_unfolded by (auto split: if_splits)
  from v(1) show "data \<noteq> []" by (auto simp: field_missing_def dict_get_def)
  from v(2) show "0 \<le> int_value (dict_item data ''input_tokens'')"
    by (simp add: not_nonneg_int_iff)
  from v(3) show "0 \<le> int_value (dict_item data ''output_tokens'')"
    by (simp add: not_nonneg_int_iff)
  from v(4) show "int_value (dict_item data ''input_tokens'') \<le> 1000000"
    by (simp add: over_limit_iff)
  from v(5) show "int_value (dict_item data ''output_tokens'') \<le> 1000000"
    by (simp add: over_limit_iff)
qed

lemma million_below_float_int_bound: "1000000 < float_int_bound"
  by (simp add: float_int_bound_def)





lemma format_consistent:
  "consistent_result (format_environmental_response now
     \<lparr>data_energy_wh = e, data_co2_emissions_g = Some co2, data_carbon_intensity_g_kwh = c,
      data_tree_equivalent = Some (co2 / 50), data_source = s, data_location = l,
      data_timestamp = t\<rparr>)"
proof -
  have "rounded_to 6 co2 (py_round co2 6) \<and> rounded_to 3 (co2 / 50) (py_round (co2 / 50) 3)"
    by (simp add: py_round_rounded)
  then show ?thesis
    unfolding consistent_result_def format_environmental_response_def Let_def get_or_def
    by (intro exI [of _ co2]) simp
qed

text \<open>
  The shape of the answer to a request that passes validation: a cached result, or the
  freshly formatted one, which is then written to the cache. Both come as a bare
  \<^verbatim>\<open>Response\<close> object.
\<close>

lemma calculate_impact_validated:
  assumes "validate_request_data (w_fromisoformat w) data = None"
  shows "\<exists>r st'. calculate_impact w st data = (Response (ImpactBody r), st') \<and>
           ((r, st') \<in> (\<lambda>(k, r). (r, st)) ` set (st_cache st) \<or>
            (\<exists>k. consistent_result r \<and>
                 st_cache st' = cache_result k r (st_cache st)))"
proof -
  let ?model = "dict_item data ''model''"
  let ?it = "dict_item data ''input_tokens''"
  let ?ot = "dict_item data ''output_tokens''"
  let ?loc = "get_or (dict_get data ''location'') (PStr ''us-west-1'')"
  let ?key = "cache_key_of ?model ?it ?ot ?loc"
  note v = validated_fields [OF assms]
  have "\<bar>int_value ?it\<bar> < float_int_bound" "\<bar>int_value ?ot\<bar> < float_int_bound"
    using v million_below_float_int_bound by linarith+
  then obtain energy where
    en: "calculate_energy_consumption (str_value ?model) (int_value ?it) (int_value ?ot) = Inr energy"
    using calculate_energy_in_range by blast
  obtain intensity svc where
    ci: "get_carbon_intensity (w_net w) (st_carbon st) ?loc = (intensity, svc)"
    by (cases "get_carbon_intensity (w_net w) (st_carbon st) ?loc")
  show ?thesis
  proof (cases "get_cached_result (st_cache st) ?key")
    case (Some r)
    then have "(?key, r) \<in> set (st_cache st)"
      unfolding get_cached_result_def dict_get_def by (rule map_of_SomeD)
    then have "(r, st) \<in> (\<lambda>(k, r). (r, st)) ` set (st_cache st)" by force
    moreover have "calculate_impact w st data = (Response (ImpactBody r), st)"
      using assms v(1) Some by (simp add: calculate_impact_def Let_def)
    ultimately show ?thesis by blast
  next
    case None
    define co2 where "co2 = (energy / 1000) * intensity"
    define result where "result = format_environmental_response (w_now w)
         \<lparr>data_energy_wh = Some energy, data_co2_emissions_g = Some co2,
          data_carbon_intensity_g_kwh = Some intensity,
          data_tree_equivalent = Some (co2 / 50),
          data_source = Some ''custom_ecologits_inspired'',
          data_location = Some ?loc,
          data_timestamp = Some (get_or (dict_get data ''timestamp'') (PStr (w_now w)))\<rparr>"
    define st' where "st' = \<lparr>st_carbon = svc, st_cache = cache_result ?key result (st_cache st)\<rparr>"
    have eq: "calculate_impact w st data = (Response (ImpactBody result), st')"
      using assms v(1) en ci None
      by (simp add: calculate_impact_def Let_def result_def co2_def st'_def)
    have "consistent_result result" unfolding result_def by (rule format_consistent)
    then have "\<exists>k. consistent_result result \<and> st_cache st' = cache_result k result (st_cache st)"
      by (auto simp: st'_def)
    with eq show ?thesis by blast
  qed
qed






subsection \<open>The batch handler\<close>

lemma batch_record_entry: "fst (batch_record w i record st) = batch_entry w i record"
proof (cases "validate_request_data (w_fromisoformat w) record")
  case None
  from calculate_impact_validated [OF None, of st]
  obtain r st' where "calculate_impact w st record = (Response (ImpactBody r), st')"
    by blast
  with None show ?thesis by (simp add: batch_record_def batch_entry_def)
next
  case (Some e)
  then show ?thesis by (simp add: batch_record_def batch_entry_def)
qed

lemma batch_loop_entries:
  "fst (batch_loop ws i records st) =
     map (\<lambda>(j, record). batch_entry (ws j) j record) (zip [i..<i + length records] records)"
proof (induction records arbitrary: i st)
  case Nil
  then show ?case by simp
next
  case (Cons rec recs)
  obtain entry st' where r: "batch_record (ws i) i rec st = (entry, st')"
    by (cases "batch_record (ws i) i rec st")
  obtain entries st'' where l: "batch_loop ws (Suc i) recs st' = (entries, st'')"
    by (cases "batch_loop ws (Suc i) recs st'")
  have e: "entry = batch_entry (ws i) i rec"
    using batch_record_entry [of "ws i" i rec st] r by simp
  have "entries = map (\<lambda>(j, record). batch_entry (ws j) j record)
      (zip [Suc i..<Suc i + length recs] recs)"
    using Cons.IH [of "Suc i" st'] l by simp
  moreover have "[i..<i + length (rec # recs)] = i # [Suc i..<Suc i + length recs]"
    by (simp add: upt_rec)
  ultimately show ?case using r l e by simp
qed

lemma batch_results_one_entry_per_record:
  assumes "length records \<le> 1000"
  shows "\<exists>results. fst (batch_calculate ws st (Some records)) = BatchResults results \<and>
           length results = length records \<and>
           (\<forall>j < length records. results ! j = batch_entry (ws j) j (records ! j))"
proof -
  obtain results st' where l: "batch_loop ws 0 records st = (results, st')"
    by (cases "batch_loop ws 0 records st")
  then have r: "results = map (\<lambda>(j, record). batch_entry (ws j) j record)
      (zip [0..<length records] records)"
    using batch_loop_entries [of ws 0 records st] by simp
  have "fst (batch_calculate ws st (Some records)) = BatchResults results"
    using assms l by (simp add: batch_calculate_def)
  moreover have "length results = length records" by (simp add: r)
  moreover have "\<forall>j < length records. results ! j = batch_entry (ws j) j (records ! j)"
    by (simp add: r)
  ultimately show ?thesis by blast
qed

text \<open>
  Claim C6 on the batch of its example, one valid record followed by a record without
  \<^verbatim>\<open>model\<close>. Served alone, the first record gets its result. In the batch, the results
  have two entries and the second is as claimed, but the first is the error
  \<^verbatim>\<open>Record 0: 'Response' object is not subscriptable\<close>, not a result.
\<close>

theorem batch_valid_record_error_entry:
  "fst (calculate_impact example_world initial_state example_request) =
     Response (ImpactBody example_result) \<and>
   fst (batch_calculate (\<lambda>i. example_world) initial_state
          (Some [example_request, record_without_model])) =
     BatchResults
       [ErrorBody (''Record 0: '' @ not_subscriptable),
        ErrorBody ''Record 1: Missing required field: model'']"
  by code_simp

end
